theory Spec2Isabelle
  imports Main "HOL-Library.Sublist" "HOL-Library.AList"
begin

section \<open>Python values\<close>

text \<open>
  A Python \<open>str\<close> is a sequence of Unicode code points, and \<open>len\<close> counts code points.
  The program's literals are mostly Japanese, so a string is modelled as the list of its
  code points. \<open>ascii\<close> embeds an ASCII literal; the other literals are written out with
  the code points of the source text.
\<close>

type_synonym pystr = "nat list"

definition ascii :: "string \<Rightarrow> pystr" where
  "ascii s = map of_char s"

text \<open>\<open>a in b\<close> on two strings: \<open>a\<close> occurs in \<open>b\<close> as a contiguous run.\<close>

fun py_in_str :: "pystr \<Rightarrow> pystr \<Rightarrow> bool" where
  "py_in_str a [] = (a = [])"
| "py_in_str a (c # cs) = (prefix a (c # cs) \<or> py_in_str a cs)"

text \<open>\<open>sep.join(xs)\<close> on a list of strings.\<close>

fun py_join :: "pystr \<Rightarrow> pystr list \<Rightarrow> pystr" where
  "py_join sep [] = []"
| "py_join sep [x] = x"
| "py_join sep (x # y # ys) = x @ sep @ py_join sep (y # ys)"

text \<open>\<open>s.replace(old, new)\<close> where \<open>old\<close> and \<open>new\<close> are single characters, and
  \<open>s.replace(old, '')\<close> where \<open>old\<close> is a single character.\<close>

definition py_replace_char :: "nat \<Rightarrow> nat \<Rightarrow> pystr \<Rightarrow> pystr" where
  "py_replace_char old new s = map (\<lambda>c. if c = old then new else c) s"

definition py_remove_char :: "nat \<Rightarrow> pystr \<Rightarrow> pystr" where
  "py_remove_char old s = filter (\<lambda>c. c \<noteq> old) s"

text \<open>\<open>xs[:k]\<close> for an integer \<open>k\<close>: a negative bound counts from the end.\<close>

definition py_slice_upto :: "'a list \<Rightarrow> int \<Rightarrow> 'a list" where
  "py_slice_upto xs k =
     (if 0 \<le> k then take (nat k) xs else take (length xs - nat (- k)) xs)"

text \<open>
  \<open>xs.sort(key=f, reverse=True)\<close>: the built-in sort is stable, and with \<open>reverse=True\<close>
  elements with equal keys keep their original order. It is modelled by the stable
  insertion sort of the library on the negated key.
\<close>

definition py_sort_reverse :: "('a \<Rightarrow> int) \<Rightarrow> 'a list \<Rightarrow> 'a list" where
  "py_sort_reverse f xs = sort_key (\<lambda>x. - f x) xs"

text \<open>Exceptions are values. \<open>APIError\<close> stands for any exception raised by a client
  library of a collaborator (document store, analysis backend, archive).\<close>

datatype py_error = KeyError | TypeError | AttributeError | ValueError | APIError

definition bind_err :: "('e + 'a) \<Rightarrow> ('a \<Rightarrow> 'e + 'b) \<Rightarrow> 'e + 'b" where
  "bind_err m f = (case m of Inl e \<Rightarrow> Inl e | Inr a \<Rightarrow> f a)"

text \<open>
  Values decoded from JSON (\<open>json.load\<close>, \<open>json.loads\<close>). A dict is an association list
  in insertion order, looked up with \<open>map_of\<close>.
\<close>

datatype json =
    JNull
  | JBool bool
  | JNum int
  | JStr pystr
  | JArr "json list"
  | JObj "(pystr \<times> json) list"

text \<open>\<open>d[k]\<close> with a string key: only a dict accepts it, and a missing key raises.\<close>

fun py_getitem :: "json \<Rightarrow> pystr \<Rightarrow> py_error + json" where
  "py_getitem (JObj kvs) k = (case map_of kvs k of None \<Rightarrow> Inl KeyError | Some v \<Rightarrow> Inr v)"
| "py_getitem _ k = Inl TypeError"

text \<open>\<open>k in d\<close> with a string \<open>k\<close>: key membership in a dict, element membership in a
  list, substring test in a string; the other values are not iterable.\<close>

fun py_contains :: "json \<Rightarrow> pystr \<Rightarrow> py_error + bool" where
  "py_contains (JObj kvs) k = Inr (k \<in> set (map fst kvs))"
| "py_contains (JArr xs) k = Inr (JStr k \<in> set xs)"
| "py_contains (JStr s) k = Inr (py_in_str k s)"
| "py_contains _ k = Inl TypeError"

text \<open>\<open>d.get(k)\<close> and \<open>d.get(k, default)\<close>: only a dict has the method.\<close>

fun py_get :: "json \<Rightarrow> pystr \<Rightarrow> json \<Rightarrow> py_error + json" where
  "py_get (JObj kvs) k dflt = Inr (case map_of kvs k of None \<Rightarrow> dflt | Some v \<Rightarrow> v)"
| "py_get _ k dflt = Inl AttributeError"

text \<open>\<open>d[k] = v\<close> with a string key: a dict stores it; a list, a string and the scalars
  raise.\<close>

fun py_setitem :: "json \<Rightarrow> pystr \<Rightarrow> json \<Rightarrow> py_error + json" where
  "py_setitem (JObj kvs) k v = Inr (JObj (AList.update k v kvs))"
| "py_setitem _ k v = Inl TypeError"

text \<open>Iterating a value whose elements must all be strings, as \<open>', '.join(x)\<close> and
  \<open>for kw in x: kw.lower()\<close> do: a list of strings, a string (its characters) or a dict
  (its keys).\<close>

fun py_str_of :: "json \<Rightarrow> pystr option" where
  "py_str_of (JStr s) = Some s"
| "py_str_of _ = None"

fun py_iter_strs :: "json \<Rightarrow> py_error + pystr list" where
  "py_iter_strs (JArr xs) =
     (if list_all (\<lambda>x. py_str_of x \<noteq> None) xs then Inr (map (\<lambda>x. the (py_str_of x)) xs)
      else Inl TypeError)"
| "py_iter_strs (JStr s) = Inr (map (\<lambda>c. [c]) s)"
| "py_iter_strs (JObj kvs) = Inr (map fst kvs)"
| "py_iter_strs _ = Inl TypeError"

text \<open>Truthiness of a decoded value (\<open>if not x\<close>).\<close>

fun py_truthy :: "json \<Rightarrow> bool" where
  "py_truthy JNull = False"
| "py_truthy (JBool b) = b"
| "py_truthy (JNum n) = (n \<noteq> 0)"
| "py_truthy (JStr s) = (s \<noteq> [])"
| "py_truthy (JArr xs) = (xs \<noteq> [])"
| "py_truthy (JObj kvs) = (kvs \<noteq> [])"

section \<open>The literals of the source\<close>

text \<open>Each constant holds the code points of the literal in the source; the comment gives
  the English word the specification uses for it.\<close>

definition status_unprocessed :: pystr where  \<comment> \<open>Status option "unprocessed", line 106\<close>
  "status_unprocessed = [0x672A, 0x51E6, 0x7406]"

definition status_processed :: pystr where  \<comment> \<open>Status option "processed", line 328\<close>
  "status_processed = [0x51E6, 0x7406, 0x6E08, 0x307F]"

definition ai_processed_flag :: pystr where  \<comment> \<open>checkbox property "AI processed", line 110\<close>
  "ai_processed_flag = [0x41, 0x49, 0x51E6, 0x7406, 0x6E08, 0x307F]"

definition untitled_memo :: pystr where  \<comment> \<open>fallback title "untitled", line 238\<close>
  "untitled_memo = [0x7121, 0x984C, 0x306E, 0x30E1, 0x30E2]"

definition unclassified_tag :: pystr where  \<comment> \<open>sentinel tag "unclassified", line 239\<close>
  "unclassified_tag = [0x672A, 0x5206, 0x985E]"

definition placeholder_title :: pystr where  \<comment> \<open>placeholder title, line 260\<close>
  "placeholder_title = [0x7121, 0x984C]"

definition related_marker :: pystr where  \<comment> \<open>marker "Related Notes", line 347\<close>
  "related_marker = [0x95A2, 0x9023, 0x30E1, 0x30E2]"

definition related_heading :: pystr where  \<comment> \<open>heading text of the appended section, line 362\<close>
  "related_heading = [0x1F517, 0x20] @ related_marker"

definition arrow_text :: pystr where  \<comment> \<open>text before each mention, line 373\<close>
  "arrow_text = [0x2192, 0x20]"

definition no_tags_text :: pystr where  \<comment> \<open>"none", line 195\<close>
  "no_tags_text = [0x306A, 0x3057]"

definition title_failed_text :: pystr where  \<comment> \<open>"title retrieval failed", line 563\<close>
  "title_failed_text = [0x30BF, 0x30A4, 0x30C8, 0x30EB, 0x53D6, 0x5F97, 0x5931, 0x6557]"

definition commit_prefix :: pystr where  \<comment> \<open>commit message prefix, line 507\<close>
  "commit_prefix = [0x2728] @ ascii '' Add: ''"

definition checked_glyph :: pystr where  \<comment> \<open>line 179\<close>
  "checked_glyph = [0x2713]"

definition unchecked_glyph :: pystr where  \<comment> \<open>line 179\<close>
  "unchecked_glyph = [0x2610]"

section \<open>The processing ledger\<close>

text \<open>
  \<open>self.processing_log\<close> is whatever \<open>json.load\<close> returned, or the dict built at line 61;
  the source accesses it without checking its shape, so the ledger is a decoded value
  and every access can raise.

  The ledger file is seen through \<open>os.path.exists\<close>, \<open>open\<close> and \<open>json.load\<close>: it does not
  exist, or reading or parsing it raises, or parsing returns a value.
\<close>

datatype log_file = NoFile | Unreadable | Parsed json

definition processed_pages_key :: pystr where
  "processed_pages_key = ascii ''processed_pages''"

definition last_edited_time_key :: pystr where
  "last_edited_time_key = ascii ''last_edited_time''"

definition empty_log :: json where  \<comment> \<open>line 61\<close>
  "empty_log = JObj [(processed_pages_key, JObj [])]"


text \<open>\<open>_is_already_processed\<close>, lines 71-77.\<close>

definition is_already_processed :: "json \<Rightarrow> pystr \<Rightarrow> pystr \<Rightarrow> py_error + bool" where
  "is_already_processed log pid last_edited =
     bind_err (py_getitem log processed_pages_key) (\<lambda>pp.
     bind_err (py_contains pp pid) (\<lambda>present.
       if present then
         bind_err (py_getitem log processed_pages_key) (\<lambda>pp2.
         bind_err (py_getitem pp2 pid) (\<lambda>log_entry.
         bind_err (py_get log_entry last_edited_time_key JNull) (\<lambda>stored.
           Inr (stored = JStr last_edited))))
       else Inr False))"

text \<open>The staleness check is the negated test of line 127.\<close>

definition is_stale :: "json \<Rightarrow> pystr \<Rightarrow> pystr \<Rightarrow> py_error + bool" where
  "is_stale log pid last_edited =
     bind_err (is_already_processed log pid last_edited) (\<lambda>b. Inr (\<not> b))"

text \<open>The entry built at lines 81-86. The title is the value found under \<open>'title'\<close> in
  the analysis result, or a string on the error path.\<close>

definition log_entry :: "json \<Rightarrow> pystr \<Rightarrow> pystr \<Rightarrow> pystr \<Rightarrow> json" where
  "log_entry title now last_edited status =
     JObj [(ascii ''title'', title),
           (ascii ''processed_at'', JStr now),
           (last_edited_time_key, JStr last_edited),
           (ascii ''status'', JStr status)]"

text \<open>The assignment of line 81 on the ledger value.\<close>

definition log_store :: "json \<Rightarrow> pystr \<Rightarrow> json \<Rightarrow> py_error + json" where
  "log_store log pid entry =
     bind_err (py_getitem log processed_pages_key) (\<lambda>pp.
     bind_err (py_setitem pp pid entry) (\<lambda>pp'.
       py_setitem log processed_pages_key pp'))"

text \<open>
  A ledger of the shape the program itself builds: a dict whose \<open>processed_pages\<close> is a
  dict of dicts. The reading of an entry follows the words of the specification: the
  stored revision is the string under \<open>last_edited_time\<close>, if there is one.
\<close>

fun is_obj :: "json \<Rightarrow> bool" where
  "is_obj (JObj kvs) = True"
| "is_obj _ = False"

fun wf_log :: "json \<Rightarrow> bool" where
  "wf_log (JObj kvs) =
     (case map_of kvs processed_pages_key of
        Some (JObj es) \<Rightarrow> list_all (\<lambda>kv. is_obj (snd kv)) es
      | _ \<Rightarrow> False)"
| "wf_log _ = False"

fun ledger_entry :: "json \<Rightarrow> pystr \<Rightarrow> json option" where
  "ledger_entry (JObj kvs) pid =
     (case map_of kvs processed_pages_key of
        Some (JObj es) \<Rightarrow> map_of es pid
      | _ \<Rightarrow> None)"
| "ledger_entry _ pid = None"

fun stored_revision :: "json \<Rightarrow> pystr option" where
  "stored_revision (JObj fs) =
     (case map_of fs last_edited_time_key of Some (JStr r) \<Rightarrow> Some r | _ \<Rightarrow> None)"
| "stored_revision _ = None"

fun stored_status :: "json \<Rightarrow> json option" where
  "stored_status (JObj fs) = map_of fs (ascii ''status'')"
| "stored_status _ = None"

section \<open>Notes and blocks of the document store\<close>

text \<open>
  A page object of the store, with the fields the source reads. A property value
  carries its type tag: the title property holds the \<open>plain_text\<close> of its rich-text
  items, a multi-select the names of its options, a select the name of its option (if
  one is set), a checkbox its value.
\<close>

datatype property =
    TitleProp "pystr list"
  | MultiSelectProp "pystr list"
  | SelectProp "pystr option"
  | CheckboxProp bool
  | OtherProp

record page =
  page_id :: pystr
  created_time :: pystr
  last_edited_time :: pystr
  properties :: "(pystr \<times> property) list"

text \<open>\<open>_get_page_title\<close>, lines 298-306. A property object is a non-empty dict, hence
  truthy: \<open>get('Name') or get('title')\<close> is the \<open>Name\<close> property when there is one.\<close>

definition get_page_title :: "page \<Rightarrow> pystr" where
  "get_page_title p =
     (let title_property =
            (case map_of (properties p) (ascii ''Name'') of
               Some v \<Rightarrow> Some v
             | None \<Rightarrow> map_of (properties p) (ascii ''title''))
      in case title_property of
           Some (TitleProp ts) \<Rightarrow> concat ts
         | _ \<Rightarrow> [])"

text \<open>\<open>_get_page_tags\<close>, lines 308-316.\<close>

definition get_page_tags :: "page \<Rightarrow> pystr list" where
  "get_page_tags p =
     (case map_of (properties p) (ascii ''Tags'') of
        Some (MultiSelectProp names) \<Rightarrow> names
      | _ \<Rightarrow> [])"

text \<open>
  A block of a page: its type, the \<open>plain_text\<close> of the rich-text items of its content
  (\<open>None\<close> when the content has no \<open>rich_text\<close>, as for a divider), and the \<open>checked\<close>
  field of a to-do.
\<close>

record block =
  btype :: pystr
  rich_text :: "pystr list option"
  checked :: bool

text \<open>\<open>_extract_text\<close>, lines 185-189.\<close>

definition extract_text :: "block \<Rightarrow> pystr" where
  "extract_text b = (case rich_text b of None \<Rightarrow> [] | Some ts \<Rightarrow> concat ts)"

text \<open>The body of the loop of \<open>get_page_content\<close>, lines 159-181, on the list
  \<open>content\<close>.\<close>

definition content_step :: "block \<Rightarrow> pystr list \<Rightarrow> pystr list" where
  "content_step b content =
     (let text = extract_text b in
      if btype b = ascii ''paragraph'' then
        (if text \<noteq> [] then content @ [text] else content)
      else if btype b \<in> set [ascii ''heading_1'', ascii ''heading_2'', ascii ''heading_3''] then
        (if text \<noteq> [] then content @ [[10] @ ascii ''## '' @ text @ [10]] else content)
      else if btype b = ascii ''bulleted_list_item'' then
        (if text \<noteq> [] then content @ [ascii ''- '' @ text] else content)
      else if btype b = ascii ''numbered_list_item'' then
        (if text \<noteq> [] then content @ [ascii ''1. '' @ text] else content)
      else if btype b = ascii ''to_do'' then
        (let glyph = (if checked b then checked_glyph else unchecked_glyph) in
         if text \<noteq> [] then content @ [glyph @ ascii '' '' @ text] else content)
      else content)"

fun content_loop :: "block list \<Rightarrow> pystr list \<Rightarrow> pystr list" where
  "content_loop [] content = content"
| "content_loop (b # bs) content = content_loop bs (content_step b content)"

definition render_content :: "block list \<Rightarrow> pystr" where
  "render_content bs = py_join [10] (content_loop bs [])"

section \<open>Collaborators and program state\<close>

text \<open>
  The reply of the analysis backend as the source sees it at lines 219-229: the request
  raises, or \<open>json.loads\<close> rejects the message content, or it decodes to a value.
\<close>

datatype reply = BackendFailure | NotJson | Decoded json

text \<open>
  What the source takes from outside: \<open>str.lower\<close> and \<open>str.isalnum\<close> of the Python
  runtime (both Unicode-aware), the analysis backend as a function of the two texts
  substituted into the prompt, the clock, the \<open>plain_text\<close> the store gives a page mention,
  whether the ledger file can be written, the archive paths whose write raises, and the
  text \<open>str(e)\<close> of an exception.
\<close>

record env =
  py_lower :: "pystr \<Rightarrow> pystr"
  py_isalnum :: "nat \<Rightarrow> bool"
  backend :: "pystr \<Rightarrow> pystr \<Rightarrow> reply"
  clock_now :: pystr
  mention_text :: "pystr \<Rightarrow> pystr"
  log_writable :: bool
  archive_fails :: "pystr \<Rightarrow> bool"
  exception_str :: "py_error \<Rightarrow> pystr"

text \<open>The requests sent to the collaborators and the writes of the ledger file, in
  order.\<close>

datatype call =
    CallAnalyze pystr
  | CallUpdatePage pystr
  | CallAppendBlocks pystr
  | CallSaveFile pystr
  | CallSaveLog

text \<open>
  The fields of the object (\<open>processing_log\<close>, \<open>all_pages_cache\<close>), the ledger file, and
  the contents of the collaborators: the rows of the database, the blocks of each
  page (\<open>None\<close> for an id the store does not know), the files of the archive.
\<close>

record state =
  processing_log :: json
  ledger_file :: log_file
  all_pages_cache :: "page list"
  db_pages :: "page list"
  page_blocks :: "pystr \<Rightarrow> block list option"
  repo_files :: "pystr \<Rightarrow> pystr option"
  calls :: "call list"

section \<open>Enrichment\<close>

definition existing_tags_str :: "pystr list option \<Rightarrow> pystr" where  \<comment> \<open>line 195\<close>
  "existing_tags_str existing_tags =
     (case existing_tags of
        None \<Rightarrow> no_tags_text
      | Some ts \<Rightarrow> if ts \<noteq> [] then py_join (ascii '', '') ts else no_tags_text)"

text \<open>The body of the \<open>try\<close> of \<open>analyze_with_ai\<close>, lines 219-233. The three \<open>print\<close>
  calls read \<open>result['title']\<close>, join \<open>result['tags']\<close> and join
  \<open>result.get('keywords', [])\<close>.\<close>

definition analyze_try :: "env \<Rightarrow> pystr \<Rightarrow> pystr list option \<Rightarrow> py_error + json" where
  "analyze_try env content existing_tags =
     (case backend env (take 3000 content) (existing_tags_str existing_tags) of
        BackendFailure \<Rightarrow> Inl APIError
      | NotJson \<Rightarrow> Inl ValueError
      | Decoded result \<Rightarrow>
          bind_err (py_getitem result (ascii ''title'')) (\<lambda>title.
          bind_err (py_getitem result (ascii ''tags'')) (\<lambda>tags.
          bind_err (py_iter_strs tags) (\<lambda>tag_list.
          bind_err (py_get result (ascii ''keywords'') (JArr [])) (\<lambda>kws.
          bind_err (py_iter_strs kws) (\<lambda>kw_list.
            Inr result))))))"

text \<open>The dict of the \<open>except\<close> branch, lines 237-242.\<close>

definition fallback_metadata :: "pystr \<Rightarrow> pystr list option \<Rightarrow> json" where
  "fallback_metadata content existing_tags =
     JObj [(ascii ''title'', JStr untitled_memo),
           (ascii ''tags'',
              JArr (map JStr (case existing_tags of
                                None \<Rightarrow> [unclassified_tag]
                              | Some ts \<Rightarrow> if ts \<noteq> [] then ts else [unclassified_tag]))),
           (ascii ''summary'', JStr (take 100 content)),
           (ascii ''keywords'', JArr [])]"

definition analyze_with_ai :: "env \<Rightarrow> pystr \<Rightarrow> pystr list option \<Rightarrow> json" where
  "analyze_with_ai env content existing_tags =
     (case analyze_try env content existing_tags of
        Inr result \<Rightarrow> result
      | Inl e \<Rightarrow> fallback_metadata content existing_tags)"

section \<open>Related notes\<close>

record candidate =
  cand_id :: pystr
  cand_title :: pystr
  cand_score :: int

text \<open>\<open>sum(1 for kw in keywords if kw.lower() in text)\<close>, lines 271 and 274.\<close>

definition count_matches :: "env \<Rightarrow> pystr list \<Rightarrow> pystr \<Rightarrow> int" where
  "count_matches env keywords text_lower =
     sum_list (map (\<lambda>kw. 1) (filter (\<lambda>kw. py_in_str (py_lower env kw) text_lower) keywords))"

text \<open>The body of the loop of \<open>find_related_pages\<close>, lines 255-284, on the list
  \<open>related\<close>.\<close>

definition related_step :: "env \<Rightarrow> pystr list \<Rightarrow> pystr \<Rightarrow> page \<Rightarrow> candidate list \<Rightarrow> candidate list" where
  "related_step env keywords current_page_id p related =
     (if page_id p = current_page_id then related
      else
        let title = get_page_title p in
        if title = [] \<or> title = placeholder_title then related
        else
          let page_tags = get_page_tags p;
              title_lower = py_lower env title;
              tags_lower = py_lower env (py_join (ascii '' '') page_tags);
              title_matches = count_matches env keywords title_lower;
              tag_matches = count_matches env keywords tags_lower;
              score = title_matches * 2 + tag_matches
          in if score > 0
             then related @ [\<lparr>cand_id = page_id p, cand_title = title, cand_score = score\<rparr>]
             else related)"

fun related_loop :: "env \<Rightarrow> pystr list \<Rightarrow> pystr \<Rightarrow> page list \<Rightarrow> candidate list \<Rightarrow> candidate list" where
  "related_loop env keywords current_page_id [] related = related"
| "related_loop env keywords current_page_id (p # ps) related =
     related_loop env keywords current_page_id ps
       (related_step env keywords current_page_id p related)"

text \<open>\<open>find_related_pages\<close>, lines 244-296, on the cache \<open>all_pages_cache\<close>.\<close>

definition find_related_pages ::
  "env \<Rightarrow> page list \<Rightarrow> pystr list \<Rightarrow> pystr \<Rightarrow> int \<Rightarrow> candidate list" where
  "find_related_pages env cache keywords current_page_id top_k =
     (if keywords = [] then []
      else py_slice_upto
             (py_sort_reverse cand_score (related_loop env keywords current_page_id cache []))
             top_k)"

section \<open>Persisting a note\<close>

text \<open>
  \<open>notion.pages.update\<close>, lines 325-335: the store raises for an id it does not know and
  for a title that is not a string; otherwise the four properties of the row are set.
\<close>

definition set_properties :: "pystr \<Rightarrow> pystr list \<Rightarrow> page \<Rightarrow> page" where
  "set_properties title tags p =
     p\<lparr>properties :=
         AList.update (ascii ''Name'') (TitleProp [title])
        (AList.update (ascii ''Tags'') (MultiSelectProp tags)
        (AList.update (ascii ''Status'') (SelectProp (Some status_processed))
        (AList.update ai_processed_flag (CheckboxProp True) (properties p))))\<rparr>"

definition pages_update :: "state \<Rightarrow> pystr \<Rightarrow> json \<Rightarrow> pystr list \<Rightarrow> py_error + state" where
  "pages_update st pid title tags =
     (if \<not> list_ex (\<lambda>p. page_id p = pid) (db_pages st) then Inl APIError
      else case title of
             JStr t \<Rightarrow>
               Inr (st\<lparr>db_pages :=
                          map (\<lambda>p. if page_id p = pid then set_properties t tags p else p)
                              (db_pages st),
                        calls := calls st @ [CallUpdatePage pid]\<rparr>)
           | _ \<Rightarrow> Inl APIError)"

text \<open>The loop of lines 343-349, with its \<open>break\<close>.\<close>

fun has_related_section :: "block list \<Rightarrow> bool" where
  "has_related_section [] = False"
| "has_related_section (b # bs) =
     (if btype b \<in> set [ascii ''heading_2'', ascii ''heading_3'']
      then (if py_in_str related_marker (extract_text b) then True
            else has_related_section bs)
      else has_related_section bs)"

text \<open>The blocks of lines 352-377, as the store returns them once appended.\<close>

definition backlink_children :: "env \<Rightarrow> candidate list \<Rightarrow> block list" where
  "backlink_children env related_pages =
     [\<lparr>btype = ascii ''divider'', rich_text = None, checked = False\<rparr>,
      \<lparr>btype = ascii ''heading_2'', rich_text = Some [related_heading], checked = False\<rparr>]
     @ map (\<lambda>rp. \<lparr>btype = ascii ''paragraph'',
                   rich_text = Some [arrow_text, mention_text env (cand_id rp)],
                   checked = False\<rparr>) related_pages"

text \<open>\<open>update_notion_page\<close>, lines 318-385. An exception is re-raised at line 385; what
  was written before it stays written.\<close>

definition update_notion_page ::
  "env \<Rightarrow> state \<Rightarrow> pystr \<Rightarrow> json \<Rightarrow> pystr list \<Rightarrow> candidate list \<Rightarrow> py_error option \<times> state" where
  "update_notion_page env st pid title tags related_pages =
     (case pages_update st pid title tags of
        Inl e \<Rightarrow> (Some e, st)
      | Inr st1 \<Rightarrow>
          if related_pages \<noteq> [] then
            (case page_blocks st1 pid of
               None \<Rightarrow> (Some APIError, st1)
             | Some existing_blocks \<Rightarrow>
                 if \<not> has_related_section existing_blocks then
                   (None, st1\<lparr>page_blocks :=
                                 (page_blocks st1)(pid \<mapsto>
                                    existing_blocks @ backlink_children env related_pages),
                               calls := calls st1 @ [CallAppendBlocks pid]\<rparr>)
                 else (None, st1))
          else (None, st1))"

text \<open>\<open>convert_to_markdown\<close>, lines 387-417.\<close>

definition convert_to_markdown :: "page \<Rightarrow> pystr \<Rightarrow> pystr list \<Rightarrow> candidate list \<Rightarrow> pystr" where
  "convert_to_markdown p content tags related_pages =
     (let title = get_page_title p;
          created = take 10 (created_time p);
          yaml_tags =
            (if tags \<noteq> []
             then [10] @ ascii ''tags:'' @ [10]
                  @ py_join [10] (map (\<lambda>tag. ascii ''  - '' @ py_remove_char 0x23 tag) tags)
             else []);
          md = ascii ''---'' @ [10] @ ascii ''title: '' @ title @ [10]
               @ ascii ''date: '' @ created @ yaml_tags @ [10]
               @ ascii ''---'' @ [10] @ [10]
               @ ascii ''# '' @ title @ [10] @ [10]
               @ content @ [10]
      in if related_pages \<noteq> []
         then md @ [10] @ ascii ''---'' @ [10] @ [10] @ ascii ''## '' @ related_heading
              @ [10] @ [10]
              @ concat (map (\<lambda>rp. ascii ''- [['' @ cand_title rp @ ascii '']]'' @ [10])
                            related_pages)
         else md)"

text \<open>\<open>save_to_github\<close>, lines 419-446: update the file if it is there, create it
  otherwise; both leave the content under the path.\<close>

definition save_to_github :: "env \<Rightarrow> state \<Rightarrow> pystr \<Rightarrow> pystr \<Rightarrow> py_error option \<times> state" where
  "save_to_github env st filename content =
     (if archive_fails env filename then (Some APIError, st)
      else (None, st\<lparr>repo_files := (repo_files st)(filename \<mapsto> content),
                     calls := calls st @ [CallSaveFile filename]\<rparr>))"

text \<open>The file name of lines 494-502.\<close>

definition target_dir :: pystr where
  "target_dir = ascii ''zettelkasten-vault''"

definition safe_title :: "env \<Rightarrow> pystr \<Rightarrow> pystr" where
  "safe_title env title =
     filter (\<lambda>c. py_isalnum env c \<or> c \<in> set [0x20, 0x2D, 0x5F])
       (take 50 (py_replace_char 0x5C 0x2D (py_replace_char 0x2F 0x2D title)))"

definition archive_filename :: "env \<Rightarrow> pystr \<Rightarrow> pystr \<Rightarrow> pystr" where
  "archive_filename env created title =
     target_dir @ ascii ''/'' @ take 10 created @ ascii ''_'' @ safe_title env title
     @ ascii ''.md''"

section \<open>Writing the ledger\<close>

text \<open>\<open>_save_log\<close>, lines 63-69: a failure to write is printed and swallowed.\<close>

definition save_log :: "env \<Rightarrow> state \<Rightarrow> state" where
  "save_log env st =
     (if log_writable env
      then st\<lparr>ledger_file := Parsed (processing_log st), calls := calls st @ [CallSaveLog]\<rparr>
      else st)"

text \<open>\<open>_add_to_log\<close>, lines 79-87.\<close>

definition add_to_log ::
  "env \<Rightarrow> state \<Rightarrow> pystr \<Rightarrow> json \<Rightarrow> pystr \<Rightarrow> pystr \<Rightarrow> py_error option \<times> state" where
  "add_to_log env st pid title last_edited status =
     (case log_store (processing_log st) pid (log_entry title (clock_now env) last_edited status) of
        Inl e \<Rightarrow> (Some e, st)
      | Inr log' \<Rightarrow> (None, save_log env (st\<lparr>processing_log := log'\<rparr>)))"

section \<open>Processing one note\<close>

definition pages_retrieve :: "state \<Rightarrow> pystr \<Rightarrow> py_error + page" where  \<comment> \<open>line 455\<close>
  "pages_retrieve st pid =
     (case find (\<lambda>p. page_id p = pid) (db_pages st) of
        None \<Rightarrow> Inl APIError
      | Some p \<Rightarrow> Inr p)"

definition get_page_content :: "state \<Rightarrow> pystr \<Rightarrow> py_error + pystr" where  \<comment> \<open>lines 154-183\<close>
  "get_page_content st pid =
     (case page_blocks st pid of
        None \<Rightarrow> Inl APIError
      | Some bs \<Rightarrow> Inr (render_content bs))"

text \<open>\<open>analysis.get('keywords', [])\<close> as the list of strings that \<open>find_related_pages\<close>
  iterates.\<close>

definition analysis_keywords :: "json \<Rightarrow> py_error + pystr list" where
  "analysis_keywords analysis =
     bind_err (py_get analysis (ascii ''keywords'') (JArr [])) py_iter_strs"

definition analysis_tags :: "json \<Rightarrow> py_error + pystr list" where
  "analysis_tags analysis =
     bind_err (py_getitem analysis (ascii ''tags'')) py_iter_strs"

text \<open>Lines 465-514 of \<open>process_page\<close>: everything after the length check.\<close>

definition enrich_and_persist ::
  "env \<Rightarrow> state \<Rightarrow> page \<Rightarrow> pystr \<Rightarrow> pystr \<Rightarrow> py_error option \<times> state" where
  "enrich_and_persist env st p pid content =
     (let existing_tags = get_page_tags p;
          analysis = analyze_with_ai env content (Some existing_tags);
          st1 = st\<lparr>calls := calls st @ [CallAnalyze content]\<rparr>
      in
      (case analysis_keywords analysis of
         Inl e \<Rightarrow> (Some e, st1)
       | Inr keywords \<Rightarrow>
      (let related_pages = find_related_pages env (all_pages_cache st1) keywords pid 5
       in
      (case py_getitem analysis (ascii ''title'') of
         Inl e \<Rightarrow> (Some e, st1)
       | Inr title \<Rightarrow>
      (case analysis_tags analysis of
         Inl e \<Rightarrow> (Some e, st1)
       | Inr tags \<Rightarrow>
      (case update_notion_page env st1 pid title tags related_pages of
         (Some e, st2) \<Rightarrow> (Some e, st2)
       | (None, st2) \<Rightarrow>
      (let markdown = convert_to_markdown p content tags related_pages
       in
      (case py_str_of title of
         None \<Rightarrow> (Some AttributeError, st2)
       | Some t \<Rightarrow>
      (let filename = archive_filename env (created_time p) t
       in
      (case save_to_github env st2 filename markdown of
         (Some e, st3) \<Rightarrow> (Some e, st3)
       | (None, st3) \<Rightarrow>
           add_to_log env st3 pid title (last_edited_time p) (ascii ''success'')))))))))))"

text \<open>\<open>process_page\<close>, lines 448-514: \<open>None\<close> when the call returns, \<open>Some e\<close> when it
  raises.\<close>

definition process_page :: "env \<Rightarrow> state \<Rightarrow> pystr \<Rightarrow> py_error option \<times> state" where
  "process_page env st pid =
     (case pages_retrieve st pid of
        Inl e \<Rightarrow> (Some e, st)
      | Inr p \<Rightarrow>
          (case get_page_content st pid of
             Inl e \<Rightarrow> (Some e, st)
           | Inr content \<Rightarrow>
               if content = [] \<or> length content < 20 then (None, st)
               else enrich_and_persist env st p pid content))"

section \<open>The batch run\<close>

text \<open>The filter of the listing, lines 101-116: the Status select equals the
  unprocessed option, or the checkbox equals \<open>False\<close>.\<close>

definition listing_filter :: "page \<Rightarrow> bool" where
  "listing_filter p =
     (map_of (properties p) (ascii ''Status'') = Some (SelectProp (Some status_unprocessed))
      \<or> map_of (properties p) ai_processed_flag = Some (CheckboxProp False))"

text \<open>The loop of lines 124-128 on the list \<open>unprocessed\<close>.\<close>

fun unprocessed_loop :: "json \<Rightarrow> page list \<Rightarrow> page list \<Rightarrow> py_error + page list" where
  "unprocessed_loop log [] unprocessed = Inr unprocessed"
| "unprocessed_loop log (p # ps) unprocessed =
     bind_err (is_already_processed log (page_id p) (last_edited_time p)) (\<lambda>done.
       unprocessed_loop log ps (if \<not> done then unprocessed @ [p] else unprocessed))"

text \<open>\<open>get_unprocessed_pages\<close>, lines 89-131. The pagination loop of lines 96-121
  concatenates the batches of the listing, which together are the rows that pass the
  filter, in the order of the store.\<close>

definition get_unprocessed_pages :: "state \<Rightarrow> py_error + page list" where
  "get_unprocessed_pages st =
     unprocessed_loop (processing_log st) (filter listing_filter (db_pages st)) []"

definition get_all_pages :: "state \<Rightarrow> state" where  \<comment> \<open>lines 133-152\<close>
  "get_all_pages st = st\<lparr>all_pages_cache := db_pages st\<rparr>"

text \<open>The loop of lines 552-567 with its two counters; the status of an error entry is
  \<open>"error: "\<close> followed by \<open>str(e)\<close>, line 565. An exception raised by
  \<open>_add_to_log\<close> inside the handler is not caught and ends the run.\<close>

fun run_loop ::
  "env \<Rightarrow> state \<Rightarrow> page list \<Rightarrow> int \<Rightarrow> int \<Rightarrow> (py_error + int \<times> int) \<times> state" where
  "run_loop env st [] success_count error_count = (Inr (success_count, error_count), st)"
| "run_loop env st (p # ps) success_count error_count =
     (case process_page env st (page_id p) of
        (None, st1) \<Rightarrow> run_loop env st1 ps (success_count + 1) error_count
      | (Some e, st1) \<Rightarrow>
          (case add_to_log env st1 (page_id p)
                  (JStr (if get_page_title p \<noteq> [] then get_page_title p else title_failed_text))
                  (last_edited_time p) (ascii ''error: '' @ exception_str env e) of
             (Some e2, st2) \<Rightarrow> (Inl e2, st2)
           | (None, st2) \<Rightarrow> run_loop env st2 ps success_count (error_count + 1)))"

text \<open>The candidate set of lines 531-535: the cache under \<open>force_reprocess\<close>, the
  unprocessed pages otherwise.\<close>

definition candidate_pages :: "state \<Rightarrow> bool \<Rightarrow> py_error + page list" where
  "candidate_pages st force_reprocess =
     (if force_reprocess then Inr (all_pages_cache st) else get_unprocessed_pages st)"


text \<open>\<open>run\<close>, lines 516-576: what it prints at the end (success, error, total), or that
  there was nothing to process, or the exception that ended it.\<close>

datatype run_result = NothingToProcess | Summary int int int | Aborted py_error

definition run_batch :: "env \<Rightarrow> state \<Rightarrow> page list \<Rightarrow> run_result \<times> state" where
  "run_batch env st pages =
     (case run_loop env st pages 0 0 of
        (Inl e, st') \<Rightarrow> (Aborted e, st')
      | (Inr (success_count, error_count), st') \<Rightarrow>
          (Summary success_count error_count (int (length pages)), st'))"


text \<open>
  The outcome of one note of the batch, in the words of the specification: it failed
  when \<open>process_page\<close> raised; it was skipped when the call returned and the body was
  shorter than 20 characters; otherwise it was enriched, persisted and logged.
\<close>

datatype note_outcome = Enriched | SkippedTooShort | Failed

definition too_short :: "state \<Rightarrow> pystr \<Rightarrow> bool" where
  "too_short st pid =
     (case get_page_content st pid of Inl e \<Rightarrow> False | Inr content \<Rightarrow> length content < 20)"

definition outcome_of :: "env \<Rightarrow> state \<Rightarrow> pystr \<Rightarrow> note_outcome" where
  "outcome_of env st pid =
     (case fst (process_page env st pid) of
        Some e \<Rightarrow> Failed
      | None \<Rightarrow> if too_short st pid then SkippedTooShort else Enriched)"

text \<open>The outcomes of the notes of a batch, each taken in the state the loop has
  reached; an exception inside the handler ends the list as it ends the loop.\<close>

fun batch_outcomes :: "env \<Rightarrow> state \<Rightarrow> page list \<Rightarrow> note_outcome list" where
  "batch_outcomes env st [] = []"
| "batch_outcomes env st (p # ps) =
     (case process_page env st (page_id p) of
        (None, st1) \<Rightarrow> outcome_of env st (page_id p) # batch_outcomes env st1 ps
      | (Some e, st1) \<Rightarrow>
          (case add_to_log env st1 (page_id p)
                  (JStr (if get_page_title p \<noteq> [] then get_page_title p else title_failed_text))
                  (last_edited_time p) (ascii ''error: '' @ exception_str env e) of
             (Some e2, st2) \<Rightarrow> [Failed]
           | (None, st2) \<Rightarrow> Failed # batch_outcomes env st2 ps))"

section \<open>The specification's wording of the relevance score\<close>

text \<open>
  The score in the words of the specification: twice the number of keywords that occur,
  ignoring case, in the title, plus the number of keywords that occur, ignoring case,
  in the tags joined by spaces. A note of the snapshot is eligible unless it is the
  excluded note or its title is empty or the placeholder.
\<close>

definition spec_score :: "env \<Rightarrow> pystr list \<Rightarrow> page \<Rightarrow> int" where
  "spec_score env keywords p =
     2 * int (length (filter (\<lambda>kw. py_in_str (py_lower env kw)
                                       (py_lower env (get_page_title p))) keywords))
     + int (length (filter (\<lambda>kw. py_in_str (py_lower env kw)
                                     (py_lower env (py_join (ascii '' '') (get_page_tags p))))
                           keywords))"

definition eligible :: "pystr \<Rightarrow> page \<Rightarrow> bool" where
  "eligible exclude_id p =
     (page_id p \<noteq> exclude_id \<and> get_page_title p \<noteq> [] \<and> get_page_title p \<noteq> placeholder_title)"

definition candidate_of :: "env \<Rightarrow> pystr list \<Rightarrow> page \<Rightarrow> candidate" where
  "candidate_of env keywords p =
     \<lparr>cand_id = page_id p, cand_title = get_page_title p,
      cand_score = spec_score env keywords p\<rparr>"

definition scored_candidates :: "env \<Rightarrow> pystr list \<Rightarrow> pystr \<Rightarrow> page list \<Rightarrow> candidate list" where
  "scored_candidates env keywords exclude_id pages =
     map (candidate_of env keywords)
         (filter (\<lambda>p. eligible exclude_id p \<and> spec_score env keywords p \<noteq> 0) pages)"

section \<open>Analysis results: what the source accepts and what the specification contracts\<close>

text \<open>
  What the \<open>try\<close> body of \<open>analyze_with_ai\<close> lets through (lines 229-233): a JSON
  object with a \<open>title\<close> of any type, with \<open>tags\<close> that can be joined as strings, and
  whose \<open>keywords\<close>, when present, can be joined as strings. The \<open>summary\<close> is never
  read.
\<close>

fun joinable :: "json \<Rightarrow> bool" where
  "joinable (JArr xs) = list_all (\<lambda>x. py_str_of x \<noteq> None) xs"
| "joinable (JStr s) = True"
| "joinable (JObj kvs) = True"
| "joinable _ = False"

fun accepted_output :: "json \<Rightarrow> bool" where
  "accepted_output (JObj kvs) =
     (map_of kvs (ascii ''title'') \<noteq> None
      \<and> (case map_of kvs (ascii ''tags'') of None \<Rightarrow> False | Some t \<Rightarrow> joinable t)
      \<and> (case map_of kvs (ascii ''keywords'') of None \<Rightarrow> True | Some k \<Rightarrow> joinable k))"
| "accepted_output _ = False"

text \<open>
  The contract of the specification for the backend: a JSON object with exactly the
  four fields \<open>title\<close>, \<open>tags\<close>, \<open>summary\<close> and \<open>keywords\<close>, where the title and the
  summary are strings and the tags and the keywords are lists of strings. An answer
  that is not such an object is malformed output in the words of the specification.
\<close>

definition contract_fields :: "pystr list" where
  "contract_fields = [ascii ''title'', ascii ''tags'', ascii ''summary'', ascii ''keywords'']"

fun is_str :: "json \<Rightarrow> bool" where
  "is_str (JStr s) = True"
| "is_str _ = False"

fun is_str_list :: "json \<Rightarrow> bool" where
  "is_str_list (JArr xs) = list_all is_str xs"
| "is_str_list _ = False"

fun contract_output :: "json \<Rightarrow> bool" where
  "contract_output (JObj kvs) =
     (list_all (\<lambda>k. k \<in> set contract_fields) (map fst kvs)
      \<and> (case map_of kvs (ascii ''title'') of Some t \<Rightarrow> is_str t | None \<Rightarrow> False)
      \<and> (case map_of kvs (ascii ''tags'') of Some t \<Rightarrow> is_str_list t | None \<Rightarrow> False)
      \<and> (case map_of kvs (ascii ''summary'') of Some t \<Rightarrow> is_str t | None \<Rightarrow> False)
      \<and> (case map_of kvs (ascii ''keywords'') of Some t \<Rightarrow> is_str_list t | None \<Rightarrow> False))"
| "contract_output _ = False"

definition backend_reply :: "env \<Rightarrow> pystr \<Rightarrow> pystr list option \<Rightarrow> reply" where
  "backend_reply env content existing_tags =
     backend env (take 3000 content) (existing_tags_str existing_tags)"

section \<open>The specification's wording of the backlink section\<close>

text \<open>
  The headings of a note whose text contains the marker, at any of the three levels
  the extractor treats as headings, and the repeated application of
  \<open>update_notion_page\<close> to one note, each time with its own title, tags and related
  notes.
\<close>

definition marked_headings :: "block list \<Rightarrow> block list" where
  "marked_headings bs =
     filter (\<lambda>b. btype b \<in> set [ascii ''heading_1'', ascii ''heading_2'', ascii ''heading_3'']
                 \<and> py_in_str related_marker (extract_text b)) bs"

fun update_repeatedly ::
  "env \<Rightarrow> state \<Rightarrow> pystr \<Rightarrow> (json \<times> pystr list \<times> candidate list) list \<Rightarrow> state" where
  "update_repeatedly env st pid [] = st"
| "update_repeatedly env st pid ((title, tags, related_pages) # rest) =
     update_repeatedly env
       (snd (update_notion_page env st pid title tags related_pages)) pid rest"

section \<open>The specification's wording of the candidate set\<close>

text \<open>A note is stale in a ledger when the ledger has no entry for its id or the
  revision stored in the entry is not the note's current revision.\<close>

definition stale_in :: "json \<Rightarrow> page \<Rightarrow> bool" where
  "stale_in log p =
     (case ledger_entry log (page_id p) of
        None \<Rightarrow> True
      | Some e \<Rightarrow> stored_revision e \<noteq> Some (last_edited_time p))"

section \<open>Concrete inputs\<close>

text \<open>An instance of the runtime functions on ASCII text, and a small store, used to
  run the definitions on explicit inputs.\<close>

definition ascii_lower :: "pystr \<Rightarrow> pystr" where
  "ascii_lower s = map (\<lambda>c. if 65 \<le> c \<and> c \<le> 90 then c + 32 else c) s"

definition ascii_isalnum :: "nat \<Rightarrow> bool" where
  "ascii_isalnum c = ((48 \<le> c \<and> c \<le> 57) \<or> (65 \<le> c \<and> c \<le> 90) \<or> (97 \<le> c \<and> c \<le> 122))"

definition demo_env :: env where
  "demo_env =
     \<lparr>py_lower = ascii_lower, py_isalnum = ascii_isalnum,
      backend = (\<lambda>content tags. BackendFailure),
      clock_now = ascii ''2024-01-02T10:00:00'',
      mention_text = (\<lambda>pid. pid),
      log_writable = True,
      archive_fails = (\<lambda>path. False),
      exception_str = (\<lambda>e. ascii ''request failed'')\<rparr>"

definition demo_log :: json where
  "demo_log =
     JObj [(processed_pages_key,
            JObj [(ascii ''a'', log_entry (JStr (ascii ''A'')) (ascii ''n1'') (ascii ''t1'')
                                 (ascii ''success'')),
                  (ascii ''b'', log_entry (JStr (ascii ''B'')) (ascii ''n1'') (ascii ''t1'')
                                 (ascii ''error: APIError''))])]"

definition demo_page :: "string \<Rightarrow> string \<Rightarrow> string \<Rightarrow> string list \<Rightarrow> page" where
  "demo_page pid edited title tags =
     \<lparr>page_id = ascii pid, created_time = ascii ''2024-01-01T09:00:00.000Z'',
      last_edited_time = ascii edited,
      properties = [(ascii ''Name'', TitleProp [ascii title]),
                    (ascii ''Tags'', MultiSelectProp (map ascii tags)),
                    (ascii ''Status'', SelectProp (Some status_unprocessed)),
                    (ai_processed_flag, CheckboxProp False)]\<rparr>"

definition demo_snapshot :: "page list" where
  "demo_snapshot =
     [demo_page ''a'' ''t1'' ''Rust memory model'' [''cache'', ''gc''],
      demo_page ''b'' ''t1'' ''Gardening notes'' [''plants''],
      demo_page ''c'' ''t1'' ''Cache lines'' [''hardware''],
      demo_page ''d'' ''t1'' ''Trusty tools'' [''CACHE''],
      demo_page ''x'' ''t1'' ''Rust cache'' [''rust'', ''cache'']]"

definition demo_content :: pystr where
  "demo_content = ascii ''Rust keeps memory safe without a garbage collector.''"

definition malformed_env :: env where
  "malformed_env =
     demo_env\<lparr>backend := (\<lambda>content tags. Decoded (JObj [(ascii ''title'', JStr (ascii ''T''))]))\<rparr>"

definition partial_reply :: json where
  "partial_reply =
     JObj [(ascii ''title'', JStr (ascii ''T'')), (ascii ''tags'', JArr [JStr (ascii ''x'')])]"

definition full_reply :: json where
  "full_reply =
     JObj [(ascii ''title'', JStr (ascii ''T'')), (ascii ''tags'', JArr [JStr (ascii ''x'')]),
           (ascii ''summary'', JStr (ascii ''S'')), (ascii ''keywords'', JArr [JStr (ascii ''k'')])]"

definition partial_env :: env where
  "partial_env = demo_env\<lparr>backend := (\<lambda>content tags. Decoded partial_reply)\<rparr>"

definition notjson_env :: env where
  "notjson_env = demo_env\<lparr>backend := (\<lambda>content tags. NotJson)\<rparr>"

definition long_title :: pystr where
  "long_title =
     ascii ''notes/2024'' @ [0x5C] @ ascii ''Why is the borrow checker strict? (part 1): a long title''"

definition demo_paragraph :: "string \<Rightarrow> block" where
  "demo_paragraph s = \<lparr>btype = ascii ''paragraph'', rich_text = Some [ascii s], checked = False\<rparr>"

definition demo_blocks :: "pystr \<Rightarrow> block list option" where
  "demo_blocks =
     map_of [(ascii ''a'', [demo_paragraph ''Rust is memory safe'']),
             (ascii ''b'', [demo_paragraph ''Water the tomatoes !'']),
             (ascii ''c'', [\<lparr>btype = ascii ''heading_1'', rich_text = Some [related_heading],
                             checked = False\<rparr>,
                            demo_paragraph ''A cache line is 64 bytes wide.'']),
             (ascii ''d'', [demo_paragraph ''Trusty tools are worth their price.'',
                            \<lparr>btype = ascii ''divider'', rich_text = None, checked = False\<rparr>,
                            \<lparr>btype = ascii ''heading_2'', rich_text = Some [related_heading],
                             checked = False\<rparr>]),
             (ascii ''x'', [demo_paragraph ''Rust caches are fast and safe.''])]"

definition demo_state :: state where
  "demo_state =
     \<lparr>processing_log = empty_log, ledger_file = NoFile,
      all_pages_cache = demo_snapshot, db_pages = demo_snapshot,
      page_blocks = demo_blocks, repo_files = (\<lambda>path. None), calls = []\<rparr>"

definition demo_candidate :: candidate where
  "demo_candidate =
     \<lparr>cand_id = ascii ''a'', cand_title = ascii ''Rust memory model'', cand_score = 3\<rparr>"

definition demo_heading_1 :: block where
  "demo_heading_1 =
     \<lparr>btype = ascii ''heading_1'', rich_text = Some [related_heading], checked = False\<rparr>"

definition demo_heading_2 :: block where
  "demo_heading_2 =
     \<lparr>btype = ascii ''heading_2'', rich_text = Some [related_heading], checked = False\<rparr>"

text \<open>The store after the note \<open>b\<close> has been processed in \<open>demo_state\<close>, and the same
  store after its owner has edited the note: the store gives it a new revision.\<close>

definition processed_state :: state where
  "processed_state = snd (process_page demo_env demo_state (ascii ''b''))"

definition edited_state :: state where
  "edited_state =
     processed_state
       \<lparr>db_pages := map (\<lambda>p. if page_id p = ascii ''b''
                               then p\<lparr>last_edited_time := ascii ''t2''\<rparr> else p)
                         (db_pages processed_state)\<rparr>"


text \<open>A store in which the notes \<open>a\<close> and \<open>b\<close> have a new revision and still pass the
  listing filter, with a ledger that holds a success entry for \<open>a\<close> and an error entry
  for \<open>b\<close>, both at the old revision.\<close>

definition retry_state :: state where
  "retry_state =
     demo_state
       \<lparr>processing_log := demo_log,
        db_pages := [demo_page ''a'' ''t2'' ''Rust memory model'' [''cache'', ''gc''],
                     demo_page ''b'' ''t2'' ''Gardening notes'' [''plants'']]\<rparr>"

section \<open>Helper lemmas\<close>

lemma bind_err_simps [simp]:
  "bind_err (Inl e) f = Inl e"
  "bind_err (Inr a) f = f a"
  by (simp_all add: bind_err_def)

lemma wf_logD:
  assumes "wf_log log"
  shows "\<exists>kvs es. log = JObj kvs \<and> map_of kvs processed_pages_key = Some (JObj es)
    \<and> list_all (\<lambda>kv. is_obj (snd kv)) es"
  using assms by (cases log) (auto split: option.splits json.splits)

lemma stored_revision_get:
  "is_obj e \<Longrightarrow>
     \<exists>v. py_get e last_edited_time_key JNull = Inr v
        \<and> (v = JStr r \<longleftrightarrow> stored_revision e = Some r)"
  by (cases e) (auto split: option.splits json.splits)

lemma is_already_processed_wf:
  assumes "wf_log log"
  shows "is_already_processed log pid r =
           Inr (case ledger_entry log pid of
                  None \<Rightarrow> False
                | Some e \<Rightarrow> stored_revision e = Some r)"
proof -
  from assms obtain kvs es where log: "log = JObj kvs"
    and pp: "map_of kvs processed_pages_key = Some (JObj es)"
    and objs: "list_all (\<lambda>kv. is_obj (snd kv)) es"
    using wf_logD by blast
  show ?thesis
  proof (cases "map_of es pid")
    case None
    then have "pid \<notin> set (map fst es)" by (simp add: map_of_eq_None_iff)
    with None log pp show ?thesis by (simp add: is_already_processed_def)
  next
    case (Some e)
    then have mem: "(pid, e) \<in> set es" by (rule map_of_SomeD)
    then have "pid \<in> set (map fst es)" by force
    moreover from mem objs have "is_obj e" by (auto simp: list_all_iff)
    then obtain v where "py_get e last_edited_time_key JNull = Inr v"
      "v = JStr r \<longleftrightarrow> stored_revision e = Some r"
      using stored_revision_get by blast
    ultimately show ?thesis using Some log pp by (simp add: is_already_processed_def)
  qed
qed

lemma is_stale_wf:
  "wf_log log \<Longrightarrow> is_stale log pid r =
     Inr (case ledger_entry log pid of
            None \<Rightarrow> True
          | Some e \<Rightarrow> stored_revision e \<noteq> Some r)"
  by (simp add: is_stale_def is_already_processed_wf split: option.splits)

lemma list_all_update:
  "list_all P al \<Longrightarrow> P (k, v) \<Longrightarrow> list_all P (AList.update k v al)"
  by (induction al) auto

lemma log_store_wf:
  assumes "wf_log log" "is_obj entry"
  shows "\<exists>log'. log_store log pid entry = Inr log' \<and> wf_log log'
           \<and> ledger_entry log' pid = Some entry
           \<and> (\<forall>q. q \<noteq> pid \<longrightarrow> ledger_entry log' q = ledger_entry log q)"
proof -
  from assms(1) obtain kvs es where log: "log = JObj kvs"
    and pp: "map_of kvs processed_pages_key = Some (JObj es)"
    and objs: "list_all (\<lambda>kv. is_obj (snd kv)) es"
    using wf_logD by blast
  let ?es' = "AList.update pid entry es"
  let ?log' = "JObj (AList.update processed_pages_key (JObj ?es') kvs)"
  have "log_store log pid entry = Inr ?log'"
    using log pp by (simp add: log_store_def)
  moreover have "wf_log ?log'"
    using objs assms(2) by (simp add: update_conv' list_all_update)
  moreover have "ledger_entry ?log' pid = Some entry"
    by (simp add: update_conv')
  moreover have "\<forall>q. q \<noteq> pid \<longrightarrow> ledger_entry ?log' q = ledger_entry log q"
    using log pp by (simp add: update_conv')
  ultimately show ?thesis by blast
qed

lemma stored_revision_log_entry [simp]:
  "stored_revision (log_entry title now r0 status) = Some r0"
  by (simp add: log_entry_def last_edited_time_key_def ascii_def)

lemma is_obj_log_entry [simp]: "is_obj (log_entry title now r0 status)"
  by (simp add: log_entry_def)

lemma wf_demo_log: "wf_log demo_log"
  by (simp add: demo_log_def)

lemma ledger_entry_demo_log:
  "ledger_entry demo_log (ascii ''a'')
     = Some (log_entry (JStr (ascii ''A'')) (ascii ''n1'') (ascii ''t1'') (ascii ''success''))"
  "ledger_entry demo_log (ascii ''b'')
     = Some (log_entry (JStr (ascii ''B'')) (ascii ''n1'') (ascii ''t1'')
               (ascii ''error: APIError''))"
  "ledger_entry demo_log (ascii ''c'') = None"
  by (simp_all add: demo_log_def ascii_def)

section \<open>The staleness check\<close>

text \<open>
  Claim C2. On a ledger of the shape the program builds, the staleness check of a
  note id and a current revision returns true exactly when the ledger has no entry
  for the id, or the revision stored in the entry differs from the current one. The
  outcome stored in the entry plays no part: after an entry with revision \<open>r0\<close> is
  recorded for the id, with any title, time and status, the check returns \<open>r0 \<noteq> r\<close>.
\<close>

theorem is_stale_iff:
  assumes "wf_log log"
  shows "is_stale log pid r =
           Inr (ledger_entry log pid = None
                \<or> (\<exists>e. ledger_entry log pid = Some e \<and> stored_revision e \<noteq> Some r))
         \<and> (\<forall>title now r0 status. \<exists>log'.
               log_store log pid (log_entry title now r0 status) = Inr log'
               \<and> is_stale log' pid r = Inr (r0 \<noteq> r))"
proof
  show "is_stale log pid r =
           Inr (ledger_entry log pid = None
                \<or> (\<exists>e. ledger_entry log pid = Some e \<and> stored_revision e \<noteq> Some r))"
    using assms by (cases "ledger_entry log pid") (simp_all add: is_stale_wf)
next
  show "\<forall>title now r0 status. \<exists>log'.
          log_store log pid (log_entry title now r0 status) = Inr log'
          \<and> is_stale log' pid r = Inr (r0 \<noteq> r)"
  proof (intro allI)
    fix title now r0 status
    from log_store_wf [OF assms is_obj_log_entry, of pid title now r0 status]
    obtain log' where st: "log_store log pid (log_entry title now r0 status) = Inr log'"
      and wf: "wf_log log'"
      and en: "ledger_entry log' pid = Some (log_entry title now r0 status)"
      by blast
    from wf en have "is_stale log' pid r = Inr (r0 \<noteq> r)"
      by (simp add: is_stale_wf)
    with st show "\<exists>log'. log_store log pid (log_entry title now r0 status) = Inr log'
                    \<and> is_stale log' pid r = Inr (r0 \<noteq> r)"
      by blast
  qed
qed

theorem is_stale_iff_witness:
  "wf_log demo_log
   \<and> is_stale demo_log (ascii ''a'') (ascii ''t1'') = Inr False
   \<and> is_stale demo_log (ascii ''a'') (ascii ''t2'') = Inr True
   \<and> is_stale demo_log (ascii ''b'') (ascii ''t1'') = Inr False
   \<and> is_stale demo_log (ascii ''b'') (ascii ''t2'') = Inr True
   \<and> is_stale demo_log (ascii ''c'') (ascii ''t1'') = Inr True"
proof -
  note th = is_stale_iff [OF wf_demo_log, THEN conjunct1]
  have ne: "ascii ''t1'' \<noteq> ascii ''t2''" by (simp add: ascii_def)
  have "is_stale demo_log (ascii ''a'') (ascii ''t1'') = Inr False"
    using th [of "ascii ''a''" "ascii ''t1''"] by (simp add: ledger_entry_demo_log)
  moreover have "is_stale demo_log (ascii ''a'') (ascii ''t2'') = Inr True"
    using th [of "ascii ''a''" "ascii ''t2''"] ne by (simp add: ledger_entry_demo_log)
  moreover have "is_stale demo_log (ascii ''b'') (ascii ''t1'') = Inr False"
    using th [of "ascii ''b''" "ascii ''t1''"] by (simp add: ledger_entry_demo_log)
  moreover have "is_stale demo_log (ascii ''b'') (ascii ''t2'') = Inr True"
    using th [of "ascii ''b''" "ascii ''t2''"] ne by (simp add: ledger_entry_demo_log)
  moreover have "is_stale demo_log (ascii ''c'') (ascii ''t1'') = Inr True"
    using th [of "ascii ''c''" "ascii ''t1''"] by (simp add: ledger_entry_demo_log)
  ultimately show ?thesis using wf_demo_log by simp
qed

section \<open>Scoring of related notes\<close>

lemma count_matches_length:
  "count_matches env kws t
     = int (length (filter (\<lambda>kw. py_in_str (py_lower env kw) t) kws))"
  unfolding count_matches_def by (induction kws) auto

lemma spec_score_nonneg: "0 \<le> spec_score env kws p"
  by (simp add: spec_score_def)

lemma related_step_spec:
  "related_step env kws cur p related =
     (if eligible cur p \<and> spec_score env kws p \<noteq> 0
      then related @ [candidate_of env kws p] else related)"
proof -
  have pos: "(0 < spec_score env kws p) = (spec_score env kws p \<noteq> 0)"
    using spec_score_nonneg [of env kws p] by linarith
  have sc: "count_matches env kws (py_lower env (get_page_title p)) * 2
              + count_matches env kws (py_lower env (py_join (ascii '' '') (get_page_tags p)))
            = spec_score env kws p"
    by (simp add: count_matches_length spec_score_def)
  show ?thesis
    unfolding related_step_def Let_def sc pos
    by (simp add: eligible_def candidate_of_def)
qed

lemma related_loop_spec:
  "related_loop env kws cur pages related
     = related @ scored_candidates env kws cur pages"
  by (induction pages arbitrary: related)
     (simp_all add: related_step_spec scored_candidates_def)

lemma set_py_slice_upto: "set (py_slice_upto xs k) \<subseteq> set xs"
  by (auto simp: py_slice_upto_def dest: in_set_takeD)

lemma py_slice_upto_take: "\<exists>n. py_slice_upto xs k = take n xs"
  by (auto simp: py_slice_upto_def)

lemma length_py_slice_upto: "0 \<le> k \<Longrightarrow> int (length (py_slice_upto xs k)) \<le> k"
  by (simp add: py_slice_upto_def)

lemma set_py_sort_reverse [simp]: "set (py_sort_reverse f xs) = set xs"
  by (simp add: py_sort_reverse_def)

lemma find_related_pages_spec:
  "find_related_pages env pages kws cur k =
     (if kws = [] then []
      else py_slice_upto (py_sort_reverse cand_score (scored_candidates env kws cur pages)) k)"
  by (simp add: find_related_pages_def related_loop_spec)

lemma in_find_related_pages:
  assumes "c \<in> set (find_related_pages env pages kws cur k)"
  shows "\<exists>p\<in>set pages. eligible cur p \<and> c = candidate_of env kws p
           \<and> 0 < spec_score env kws p"
proof -
  from assms have "c \<in> set (scored_candidates env kws cur pages)"
    using set_py_slice_upto
            [of "py_sort_reverse cand_score (scored_candidates env kws cur pages)" k]
    by (auto simp: find_related_pages_spec split: if_splits)
  then show ?thesis
    using spec_score_nonneg [of env kws]
    by (fastforce simp: scored_candidates_def order_less_le)
qed

lemma demo_scored_candidates:
  "scored_candidates demo_env [ascii ''rust'', ascii ''cache''] (ascii ''x'') demo_snapshot
   = [\<lparr>cand_id = ascii ''a'', cand_title = ascii ''Rust memory model'', cand_score = 3\<rparr>,
      \<lparr>cand_id = ascii ''c'', cand_title = ascii ''Cache lines'', cand_score = 2\<rparr>,
      \<lparr>cand_id = ascii ''d'', cand_title = ascii ''Trusty tools'', cand_score = 3\<rparr>]"
  by (simp add: scored_candidates_def demo_snapshot_def demo_page_def
     eligible_def spec_score_def get_page_title_def get_page_tags_def ascii_def demo_env_def
     ascii_lower_def placeholder_title_def candidate_of_def)

lemma demo_sorted_candidates:
  "py_slice_upto (py_sort_reverse cand_score
      [\<lparr>cand_id = ascii ''a'', cand_title = ascii ''Rust memory model'', cand_score = 3\<rparr>,
       \<lparr>cand_id = ascii ''c'', cand_title = ascii ''Cache lines'', cand_score = 2\<rparr>,
       \<lparr>cand_id = ascii ''d'', cand_title = ascii ''Trusty tools'', cand_score = 3\<rparr>]) 5
   = [\<lparr>cand_id = ascii ''a'', cand_title = ascii ''Rust memory model'', cand_score = 3\<rparr>,
      \<lparr>cand_id = ascii ''d'', cand_title = ascii ''Trusty tools'', cand_score = 3\<rparr>,
      \<lparr>cand_id = ascii ''c'', cand_title = ascii ''Cache lines'', cand_score = 2\<rparr>]"
  by (simp add: py_sort_reverse_def py_slice_upto_def)

lemma demo_keywords_nonempty: "[ascii ''rust'', ascii ''cache''] \<noteq> []"
  by simp

text \<open>
  Claim C3. The result of \<open>find_related_pages\<close> is the empty list for an empty keyword
  list, and otherwise the sorted and cut list of the candidates of the snapshot, where
  the candidates are the notes other than the excluded one, with a title that is
  neither empty nor the placeholder, whose score (twice the keywords found in the
  lower-cased title plus the keywords found in the lower-cased joined tags) is not
  zero. Every candidate returned carries that score of an eligible note of the
  snapshot and the score is positive; a note that scores 0 has no candidate in the
  result.
\<close>

theorem find_related_scores:
  "find_related_pages env pages kws cur k =
     (if kws = [] then []
      else py_slice_upto (py_sort_reverse cand_score (scored_candidates env kws cur pages)) k)
   \<and> (\<forall>c\<in>set (find_related_pages env pages kws cur k).
         0 < cand_score c
         \<and> (\<exists>p\<in>set pages. eligible cur p \<and> c = candidate_of env kws p))
   \<and> (\<forall>p\<in>set pages. spec_score env kws p = 0 \<longrightarrow>
         candidate_of env kws p \<notin> set (find_related_pages env pages kws cur k))
   \<and> find_related_pages env pages [] cur k = []"
proof (intro conjI ballI impI)
  show "find_related_pages env pages kws cur k =
     (if kws = [] then []
      else py_slice_upto (py_sort_reverse cand_score (scored_candidates env kws cur pages)) k)"
    by (rule find_related_pages_spec)
next
  fix c assume "c \<in> set (find_related_pages env pages kws cur k)"
  from in_find_related_pages [OF this]
  obtain p where "p \<in> set pages" "eligible cur p" "c = candidate_of env kws p"
    "0 < spec_score env kws p" by blast
  then show "0 < cand_score c"
    and "\<exists>p\<in>set pages. eligible cur p \<and> c = candidate_of env kws p"
    by (auto simp: candidate_of_def)
next
  fix p assume "p \<in> set pages" and zero: "spec_score env kws p = 0"
  show "candidate_of env kws p \<notin> set (find_related_pages env pages kws cur k)"
  proof
    assume "candidate_of env kws p \<in> set (find_related_pages env pages kws cur k)"
    from in_find_related_pages [OF this]
    obtain q where "candidate_of env kws p = candidate_of env kws q" "0 < spec_score env kws q"
      by blast
    then have "0 < spec_score env kws p"
      by (simp add: candidate_of_def)
    with zero show False by simp
  qed
next
  show "find_related_pages env pages [] cur k = []"
    by (simp add: find_related_pages_def)
qed

theorem find_related_scores_witness:
  "find_related_pages demo_env demo_snapshot [ascii ''rust'', ascii ''cache''] (ascii ''x'') 5
     = [\<lparr>cand_id = ascii ''a'', cand_title = ascii ''Rust memory model'', cand_score = 3\<rparr>,
        \<lparr>cand_id = ascii ''d'', cand_title = ascii ''Trusty tools'', cand_score = 3\<rparr>,
        \<lparr>cand_id = ascii ''c'', cand_title = ascii ''Cache lines'', cand_score = 2\<rparr>]
   \<and> demo_snapshot ! 1 \<in> set demo_snapshot
   \<and> spec_score demo_env [ascii ''rust'', ascii ''cache''] (demo_snapshot ! 1) = 0
   \<and> candidate_of demo_env [ascii ''rust'', ascii ''cache''] (demo_snapshot ! 1)
        \<notin> set (find_related_pages demo_env demo_snapshot [ascii ''rust'', ascii ''cache'']
                  (ascii ''x'') 5)
   \<and> find_related_pages demo_env demo_snapshot [] (ascii ''x'') 5 = []"
proof -
  note th = find_related_scores
              [of demo_env demo_snapshot "[ascii ''rust'', ascii ''cache'']" "ascii ''x''" 5]
  have res: "find_related_pages demo_env demo_snapshot [ascii ''rust'', ascii ''cache'']
               (ascii ''x'') 5
     = [\<lparr>cand_id = ascii ''a'', cand_title = ascii ''Rust memory model'', cand_score = 3\<rparr>,
        \<lparr>cand_id = ascii ''d'', cand_title = ascii ''Trusty tools'', cand_score = 3\<rparr>,
        \<lparr>cand_id = ascii ''c'', cand_title = ascii ''Cache lines'', cand_score = 2\<rparr>]"
    using th [THEN conjunct1] demo_keywords_nonempty
    by (simp only: demo_scored_candidates demo_sorted_candidates if_False)
  have mem: "demo_snapshot ! 1 \<in> set demo_snapshot"
    by (simp add: demo_snapshot_def)
  have zero: "spec_score demo_env [ascii ''rust'', ascii ''cache''] (demo_snapshot ! 1) = 0"
    by (simp add: demo_snapshot_def demo_page_def spec_score_def get_page_title_def
          get_page_tags_def ascii_def demo_env_def ascii_lower_def)
  have absent: "candidate_of demo_env [ascii ''rust'', ascii ''cache''] (demo_snapshot ! 1)
        \<notin> set (find_related_pages demo_env demo_snapshot [ascii ''rust'', ascii ''cache'']
                  (ascii ''x'') 5)"
    using th [THEN conjunct2, THEN conjunct2, THEN conjunct1] mem zero by blast
  have empty: "find_related_pages demo_env demo_snapshot [] (ascii ''x'') 5 = []"
    using find_related_scores [of demo_env demo_snapshot "[]" "ascii ''x''" 5] by blast
  from res mem zero absent empty show ?thesis by blast
qed

section \<open>Ranking of related notes\<close>

lemma sorted_py_sort_reverse:
  "sorted_wrt (\<lambda>a b. f b \<le> f a) (py_sort_reverse f xs)"
proof -
  have "sorted (map (\<lambda>x. - f x) (sort_key (\<lambda>x. - f x) xs))"
    by (rule sorted_sort_key)
  then show ?thesis
    by (simp add: py_sort_reverse_def sorted_map)
qed

lemma py_sort_reverse_stable:
  "filter (\<lambda>y. f y = k) (py_sort_reverse f xs) = filter (\<lambda>y. f y = k) xs"
proof -
  have "filter (\<lambda>y. - f y = - k) (sort_key (\<lambda>x. - f x) xs) = filter (\<lambda>y. - f y = - k) xs"
    by (rule sort_key_stable)
  then show ?thesis by (simp add: py_sort_reverse_def)
qed

lemma subseq_pair_nth:
  assumes "i < j" "j < length xs"
  shows "subseq [xs ! i, xs ! j] xs"
proof -
  from assms have i: "i < length xs" by simp
  have "xs = take i xs @ xs ! i # drop (Suc i) xs"
    using i by (rule id_take_nth_drop)
  moreover have "drop (Suc i) xs = take (j - Suc i) (drop (Suc i) xs)
                   @ drop (Suc i) xs ! (j - Suc i) # drop (Suc (j - Suc i)) (drop (Suc i) xs)"
    using assms by (intro id_take_nth_drop) simp
  moreover have "drop (Suc i) xs ! (j - Suc i) = xs ! j"
    using assms by simp
  ultimately obtain as bs cs where "xs = as @ xs ! i # bs @ xs ! j # cs"
    by metis
  then have "subseq ([] @ xs ! i # [] @ xs ! j # []) xs"
    by (metis list_emb_append_mono subseq_Cons2 list_emb_Nil)
  then show ?thesis by simp
qed

lemma subseq_pair_indices:
  "subseq [x, y] xs \<Longrightarrow> \<exists>a b. a < b \<and> b < length xs \<and> xs ! a = x \<and> xs ! b = y"
proof (induction xs)
  case Nil
  then show ?case by simp
next
  case (Cons z zs)
  show ?case
  proof (cases "subseq [x, y] zs")
    case True
    with Cons.IH obtain a b where "a < b" "b < length zs" "zs ! a = x" "zs ! b = y" by blast
    then have "Suc a < Suc b \<and> Suc b < length (z # zs)
                 \<and> (z # zs) ! Suc a = x \<and> (z # zs) ! Suc b = y"
      by simp
    then show ?thesis by blast
  next
    case False
    with Cons.prems have zx: "z = x" and "subseq [y] zs"
      by (auto simp: subseq_Cons' split: if_splits)
    then have "y \<in> set zs" by (metis subseq_singleton_left)
    then obtain b where "b < length zs" "zs ! b = y" by (auto simp: in_set_conv_nth)
    with zx have "0 < Suc b \<and> Suc b < length (z # zs)
                    \<and> (z # zs) ! 0 = x \<and> (z # zs) ! Suc b = y"
      by simp
    then show ?thesis by blast
  qed
qed

lemma stable_order:
  assumes res: "res = take n (py_sort_reverse f (map g (filter E pages)))"
    and ij: "i < j" "j < length res" and eq: "f (res ! i) = f (res ! j)"
  shows "\<exists>a b. a < b \<and> b < length pages \<and> g (pages ! a) = res ! i \<and> g (pages ! b) = res ! j"
proof -
  let ?S = "map g (filter E pages)"
  let ?R = "py_sort_reverse f ?S"
  let ?P = "\<lambda>c. f c = f (res ! i)"
  have "subseq [res ! i, res ! j] res" using ij by (rule subseq_pair_nth)
  then have "subseq (filter ?P [res ! i, res ! j]) (filter ?P res)"
    by (rule subseq_filter)
  then have "subseq [res ! i, res ! j] (filter ?P res)" using eq by simp
  moreover have "subseq (filter ?P res) (filter ?P ?R)"
    unfolding res
    by (intro subseq_filter)
       (metis append_take_drop_id list_emb_prefix subseq_order.order_refl)
  moreover have "filter ?P ?R = filter ?P ?S" by (rule py_sort_reverse_stable)
  moreover have "subseq (filter ?P ?S) ?S" by simp
  moreover have "subseq ?S (map g pages)" by (simp add: subseq_map)
  ultimately have "subseq [res ! i, res ! j] (map g pages)"
    by (metis subseq_order.order_trans)
  from subseq_pair_indices [OF this]
  obtain a b where "a < b" "b < length (map g pages)"
    "map g pages ! a = res ! i" "map g pages ! b = res ! j"
    by blast
  then have "a < b \<and> b < length pages \<and> g (pages ! a) = res ! i \<and> g (pages ! b) = res ! j"
    by simp
  then show ?thesis by blast
qed

lemma find_related_pages_take:
  "\<exists>n. find_related_pages env pages kws cur k
         = take n (py_sort_reverse cand_score
                     (map (candidate_of env kws)
                        (filter (\<lambda>p. eligible cur p \<and> spec_score env kws p \<noteq> 0) pages)))"
proof (cases "kws = []")
  case True
  then have "find_related_pages env pages kws cur k
               = take 0 (py_sort_reverse cand_score
                     (map (candidate_of env kws)
                        (filter (\<lambda>p. eligible cur p \<and> spec_score env kws p \<noteq> 0) pages)))"
    by (simp add: find_related_pages_def)
  then show ?thesis by blast
next
  case False
  then show ?thesis
    using py_slice_upto_take
            [of "py_sort_reverse cand_score (scored_candidates env kws cur pages)" k]
    by (simp add: find_related_pages_spec scored_candidates_def)
qed

lemma demo_find_related:
  "find_related_pages demo_env demo_snapshot [ascii ''rust'', ascii ''cache''] (ascii ''x'') 5
     = [\<lparr>cand_id = ascii ''a'', cand_title = ascii ''Rust memory model'', cand_score = 3\<rparr>,
        \<lparr>cand_id = ascii ''d'', cand_title = ascii ''Trusty tools'', cand_score = 3\<rparr>,
        \<lparr>cand_id = ascii ''c'', cand_title = ascii ''Cache lines'', cand_score = 2\<rparr>]"
  using find_related_pages_spec
          [of demo_env demo_snapshot "[ascii ''rust'', ascii ''cache'']" "ascii ''x''" 5]
        demo_keywords_nonempty
  by (simp only: demo_scored_candidates demo_sorted_candidates if_False)

text \<open>
  Claim C4. The list returned by \<open>find_related_pages\<close> is in descending order of
  score; it has at most \<open>top_k\<close> elements for a bound that is not negative, and at most
  5 for the default bound; and of two returned candidates with the same score, the
  one that comes first in the result is the candidate of a note that comes earlier in
  the snapshot.
\<close>

theorem find_related_ranking:
  "sorted_wrt (\<lambda>a b. cand_score b \<le> cand_score a) (find_related_pages env pages kws cur k)
   \<and> (0 \<le> k \<longrightarrow> int (length (find_related_pages env pages kws cur k)) \<le> k)
   \<and> length (find_related_pages env pages kws cur 5) \<le> 5
   \<and> (\<forall>i j. i < j \<and> j < length (find_related_pages env pages kws cur k)
          \<and> cand_score (find_related_pages env pages kws cur k ! i)
              = cand_score (find_related_pages env pages kws cur k ! j)
        \<longrightarrow> (\<exists>a b. a < b \<and> b < length pages
               \<and> candidate_of env kws (pages ! a) = find_related_pages env pages kws cur k ! i
               \<and> candidate_of env kws (pages ! b) = find_related_pages env pages kws cur k ! j))"
proof -
  obtain n where res: "find_related_pages env pages kws cur k
         = take n (py_sort_reverse cand_score
                     (map (candidate_of env kws)
                        (filter (\<lambda>p. eligible cur p \<and> spec_score env kws p \<noteq> 0) pages)))"
    using find_related_pages_take by blast
  have sorted: "sorted_wrt (\<lambda>a b. cand_score b \<le> cand_score a)
                  (find_related_pages env pages kws cur k)"
    unfolding res by (intro sorted_wrt_take sorted_py_sort_reverse)
  have len: "\<And>m. 0 \<le> m \<Longrightarrow> int (length (find_related_pages env pages kws cur m)) \<le> m"
    by (simp add: find_related_pages_spec length_py_slice_upto)
  have len5: "length (find_related_pages env pages kws cur 5) \<le> 5"
    using len [of 5] by simp
  have stable: "\<exists>a b. a < b \<and> b < length pages
               \<and> candidate_of env kws (pages ! a) = find_related_pages env pages kws cur k ! i
               \<and> candidate_of env kws (pages ! b) = find_related_pages env pages kws cur k ! j"
    if "i < j" "j < length (find_related_pages env pages kws cur k)"
       "cand_score (find_related_pages env pages kws cur k ! i)
          = cand_score (find_related_pages env pages kws cur k ! j)" for i j
    using stable_order [OF res that] .
  from sorted len len5 stable show ?thesis by blast
qed

theorem find_related_ranking_witness:
  "(0::int) \<le> 5
   \<and> int (length (find_related_pages demo_env demo_snapshot [ascii ''rust'', ascii ''cache'']
                    (ascii ''x'') 5)) \<le> 5
   \<and> (0::nat) < 1
   \<and> 1 < length (find_related_pages demo_env demo_snapshot [ascii ''rust'', ascii ''cache'']
                   (ascii ''x'') 5)
   \<and> cand_score (find_related_pages demo_env demo_snapshot [ascii ''rust'', ascii ''cache'']
                    (ascii ''x'') 5 ! 0)
       = cand_score (find_related_pages demo_env demo_snapshot [ascii ''rust'', ascii ''cache'']
                       (ascii ''x'') 5 ! 1)
   \<and> (\<exists>a b. a < b \<and> b < length demo_snapshot
         \<and> candidate_of demo_env [ascii ''rust'', ascii ''cache''] (demo_snapshot ! a)
             = find_related_pages demo_env demo_snapshot [ascii ''rust'', ascii ''cache'']
                 (ascii ''x'') 5 ! 0
         \<and> candidate_of demo_env [ascii ''rust'', ascii ''cache''] (demo_snapshot ! b)
             = find_related_pages demo_env demo_snapshot [ascii ''rust'', ascii ''cache'']
                 (ascii ''x'') 5 ! 1)"
proof -
  note th = find_related_ranking
              [of demo_env demo_snapshot "[ascii ''rust'', ascii ''cache'']" "ascii ''x''" 5]
  have h1: "(0::int) \<le> 5" by simp
  have h2: "(0::nat) < 1" by simp
  have h3: "1 < length (find_related_pages demo_env demo_snapshot
                          [ascii ''rust'', ascii ''cache''] (ascii ''x'') 5)"
    by (simp add: demo_find_related)
  have h4: "cand_score (find_related_pages demo_env demo_snapshot
                          [ascii ''rust'', ascii ''cache''] (ascii ''x'') 5 ! 0)
       = cand_score (find_related_pages demo_env demo_snapshot
                       [ascii ''rust'', ascii ''cache''] (ascii ''x'') 5 ! 1)"
    by (simp add: demo_find_related)
  from th h1 have c2: "int (length (find_related_pages demo_env demo_snapshot
                          [ascii ''rust'', ascii ''cache''] (ascii ''x'') 5)) \<le> 5"
    by blast
  from th h2 h3 h4 have c4: "\<exists>a b. a < b \<and> b < length demo_snapshot
         \<and> candidate_of demo_env [ascii ''rust'', ascii ''cache''] (demo_snapshot ! a)
             = find_related_pages demo_env demo_snapshot [ascii ''rust'', ascii ''cache'']
                 (ascii ''x'') 5 ! 0
         \<and> candidate_of demo_env [ascii ''rust'', ascii ''cache''] (demo_snapshot ! b)
             = find_related_pages demo_env demo_snapshot [ascii ''rust'', ascii ''cache'']
                 (ascii ''x'') 5 ! 1"
    by blast
  from h1 h2 h3 h4 c2 c4 show ?thesis by blast
qed

section \<open>Fallback metadata\<close>

lemma bind_iter_strs:
  "bind_err (py_iter_strs t) (\<lambda>l. X) = (if joinable t then X else Inl TypeError)"
  by (cases t) auto

lemma analyze_try_Decoded:
  assumes "backend_reply env content existing = Decoded r"
  shows "(analyze_try env content existing = Inr r) = accepted_output r"
    and "\<not> accepted_output r \<Longrightarrow> \<exists>e. analyze_try env content existing = Inl e"
proof -
  have *: "analyze_try env content existing =
          bind_err (py_getitem r (ascii ''title'')) (\<lambda>title.
          bind_err (py_getitem r (ascii ''tags'')) (\<lambda>tags.
          bind_err (py_iter_strs tags) (\<lambda>tag_list.
          bind_err (py_get r (ascii ''keywords'') (JArr [])) (\<lambda>kws.
          bind_err (py_iter_strs kws) (\<lambda>kw_list.
            Inr r)))))"
    using assms by (simp add: analyze_try_def backend_reply_def)
  show "(analyze_try env content existing = Inr r) = accepted_output r"
    unfolding *
    by (cases r) (auto simp: bind_iter_strs split: option.splits)
  show "\<not> accepted_output r \<Longrightarrow> \<exists>e. analyze_try env content existing = Inl e"
    unfolding *
    by (cases r) (auto simp: bind_iter_strs split: option.splits)
qed

lemma analyze_try_fails:
  assumes "backend_reply env content existing = BackendFailure
           \<or> backend_reply env content existing = NotJson
           \<or> (\<exists>r. backend_reply env content existing = Decoded r \<and> \<not> accepted_output r)"
  shows "\<exists>e. analyze_try env content existing = Inl e"
  using assms analyze_try_Decoded(2) [of env content existing]
  by (auto simp: analyze_try_def backend_reply_def)

lemma analyze_accepts:
  "backend_reply env content existing = Decoded r \<Longrightarrow> accepted_output r \<Longrightarrow>
     analyze_with_ai env content existing = r"
  using analyze_try_Decoded(1) [of env content existing r]
  by (simp add: analyze_with_ai_def)

lemma fallback_fields:
  "py_getitem (fallback_metadata content existing) (ascii ''title'') = Inr (JStr untitled_memo)"
  "py_getitem (fallback_metadata content existing) (ascii ''tags'')
     = Inr (JArr (map JStr (case existing of
                              None \<Rightarrow> [unclassified_tag]
                            | Some ts \<Rightarrow> if ts = [] then [unclassified_tag] else ts)))"
  "py_getitem (fallback_metadata content existing) (ascii ''summary'')
     = Inr (JStr (take 100 content))"
  "py_getitem (fallback_metadata content existing) (ascii ''keywords'') = Inr (JArr [])"
  by (auto simp: fallback_metadata_def ascii_def split: option.splits)

lemma is_str_joinable: "is_str_list t \<Longrightarrow> joinable t"
proof (cases t)
  case (JArr xs)
  assume "is_str_list t"
  with JArr have "list_all is_str xs" by simp
  then have "list_all (\<lambda>x. py_str_of x \<noteq> None) xs"
  proof (induction xs)
    case Nil
    then show ?case by simp
  next
    case (Cons x xs)
    then show ?case by (cases x) simp_all
  qed
  with JArr show ?thesis by simp
qed simp_all

lemma contract_output_accepted: "contract_output r \<Longrightarrow> accepted_output r"
  by (cases r) (auto split: option.splits intro: is_str_joinable)

lemma partial_reply_accepted: "accepted_output partial_reply"
  by (simp add: partial_reply_def ascii_def)

lemma partial_reply_not_contract: "\<not> contract_output partial_reply"
  by (simp add: partial_reply_def ascii_def)

lemma full_reply_contract: "contract_output full_reply"
  by (simp add: full_reply_def contract_fields_def ascii_def)

lemma partial_env_reply:
  "backend_reply partial_env demo_content (Some [ascii ''rust'']) = Decoded partial_reply"
  by (simp add: backend_reply_def partial_env_def demo_env_def)

text \<open>
  Claim C6, as stated, fails when malformed output is read as the specification
  defines it, an answer that is not the object with the four contracted fields. The
  backend answers with an object that has a title and tags but neither summary nor
  keywords: \<open>analyze_with_ai\<close> returns that object as it is, with the title of the
  backend and no summary, not the default metadata.
\<close>

theorem analyze_falls_back_counterexample:
  "backend_reply partial_env demo_content (Some [ascii ''rust'']) = Decoded partial_reply
   \<and> \<not> contract_output partial_reply
   \<and> analyze_with_ai partial_env demo_content (Some [ascii ''rust'']) = partial_reply
   \<and> analyze_with_ai partial_env demo_content (Some [ascii ''rust''])
       \<noteq> fallback_metadata demo_content (Some [ascii ''rust''])
   \<and> py_getitem (analyze_with_ai partial_env demo_content (Some [ascii ''rust'']))
         (ascii ''title'') = Inr (JStr (ascii ''T''))
   \<and> py_getitem (analyze_with_ai partial_env demo_content (Some [ascii ''rust'']))
         (ascii ''summary'') = Inl KeyError"
proof -
  have res: "analyze_with_ai partial_env demo_content (Some [ascii ''rust'']) = partial_reply"
    using partial_env_reply partial_reply_accepted by (rule analyze_accepts)
  have ne: "partial_reply \<noteq> fallback_metadata demo_content (Some [ascii ''rust''])"
    by (simp add: partial_reply_def fallback_metadata_def)
  have t: "py_getitem partial_reply (ascii ''title'') = Inr (JStr (ascii ''T''))"
    by (simp add: partial_reply_def ascii_def)
  have su: "py_getitem partial_reply (ascii ''summary'') = Inl KeyError"
    by (simp add: partial_reply_def ascii_def)
  from partial_env_reply partial_reply_not_contract res ne t su show ?thesis by simp
qed

text \<open>
  Claim C6, amended. When the request to the backend raises, or its answer is not
  JSON, or the decoded answer is not an object with a title, with tags that can be
  joined as strings and with keywords that, when present, can be joined as strings,
  \<open>analyze_with_ai\<close> returns (it has no error value) the default metadata: the title
  is the untitled literal, the tags are the existing tags or, when there are none,
  the single unclassified tag, the summary is the first 100 characters of the text,
  and the keyword list is empty. Every other answer is returned as it is; an answer
  that keeps the contract of the specification is among them.
\<close>

theorem analyze_falls_back:
  "(backend_reply env content existing = BackendFailure
      \<or> backend_reply env content existing = NotJson
      \<or> (\<exists>r. backend_reply env content existing = Decoded r \<and> \<not> accepted_output r)
    \<longrightarrow> analyze_with_ai env content existing = fallback_metadata content existing
        \<and> py_getitem (analyze_with_ai env content existing) (ascii ''title'')
            = Inr (JStr untitled_memo)
        \<and> py_getitem (analyze_with_ai env content existing) (ascii ''tags'')
            = Inr (JArr (map JStr (case existing of
                                     None \<Rightarrow> [unclassified_tag]
                                   | Some ts \<Rightarrow> if ts = [] then [unclassified_tag] else ts)))
        \<and> py_getitem (analyze_with_ai env content existing) (ascii ''summary'')
            = Inr (JStr (take 100 content))
        \<and> py_getitem (analyze_with_ai env content existing) (ascii ''keywords'')
            = Inr (JArr []))
   \<and> (\<forall>r. backend_reply env content existing = Decoded r \<and> accepted_output r
          \<longrightarrow> analyze_with_ai env content existing = r)
   \<and> (\<forall>r. contract_output r \<longrightarrow> accepted_output r)"
proof (intro conjI impI allI)
  assume h: "backend_reply env content existing = BackendFailure
      \<or> backend_reply env content existing = NotJson
      \<or> (\<exists>r. backend_reply env content existing = Decoded r \<and> \<not> accepted_output r)"
  from analyze_try_fails [OF h]
  obtain e where "analyze_try env content existing = Inl e" by blast
  then show fb: "analyze_with_ai env content existing = fallback_metadata content existing"
    by (simp add: analyze_with_ai_def)
  show "py_getitem (analyze_with_ai env content existing) (ascii ''title'')
            = Inr (JStr untitled_memo)"
    unfolding fb by (rule fallback_fields)
  show "py_getitem (analyze_with_ai env content existing) (ascii ''tags'')
            = Inr (JArr (map JStr (case existing of
                                     None \<Rightarrow> [unclassified_tag]
                                   | Some ts \<Rightarrow> if ts = [] then [unclassified_tag] else ts)))"
    unfolding fb by (rule fallback_fields)
  show "py_getitem (analyze_with_ai env content existing) (ascii ''summary'')
            = Inr (JStr (take 100 content))"
    unfolding fb by (rule fallback_fields)
  show "py_getitem (analyze_with_ai env content existing) (ascii ''keywords'')
            = Inr (JArr [])"
    unfolding fb by (rule fallback_fields)
next
  fix r
  assume "backend_reply env content existing = Decoded r \<and> accepted_output r"
  then show "analyze_with_ai env content existing = r"
    using analyze_accepts by blast
next
  fix r
  assume "contract_output r"
  then show "accepted_output r" by (rule contract_output_accepted)
qed

theorem analyze_falls_back_witness:
  "backend_reply demo_env demo_content (Some [ascii ''rust'']) = BackendFailure
   \<and> analyze_with_ai demo_env demo_content (Some [ascii ''rust''])
       = JObj [(ascii ''title'', JStr untitled_memo),
               (ascii ''tags'', JArr [JStr (ascii ''rust'')]),
               (ascii ''summary'', JStr demo_content),
               (ascii ''keywords'', JArr [])]
   \<and> backend_reply notjson_env demo_content (Some []) = NotJson
   \<and> py_getitem (analyze_with_ai notjson_env demo_content (Some [])) (ascii ''tags'')
       = Inr (JArr [JStr unclassified_tag])
   \<and> backend_reply malformed_env demo_content None
       = Decoded (JObj [(ascii ''title'', JStr (ascii ''T''))])
   \<and> \<not> accepted_output (JObj [(ascii ''title'', JStr (ascii ''T''))])
   \<and> py_getitem (analyze_with_ai malformed_env demo_content None) (ascii ''title'')
       = Inr (JStr untitled_memo)
   \<and> backend_reply partial_env demo_content None = Decoded partial_reply
   \<and> accepted_output partial_reply
   \<and> analyze_with_ai partial_env demo_content None = partial_reply
   \<and> contract_output full_reply
   \<and> accepted_output full_reply"
proof -
  have b1: "backend_reply demo_env demo_content (Some [ascii ''rust'']) = BackendFailure"
    by (simp add: backend_reply_def demo_env_def)
  have b2: "backend_reply notjson_env demo_content (Some []) = NotJson"
    by (simp add: backend_reply_def notjson_env_def demo_env_def)
  have b3: "backend_reply malformed_env demo_content None
              = Decoded (JObj [(ascii ''title'', JStr (ascii ''T''))])"
    by (simp add: backend_reply_def malformed_env_def demo_env_def)
  have b4: "backend_reply partial_env demo_content None = Decoded partial_reply"
    by (simp add: backend_reply_def partial_env_def demo_env_def)
  have n3: "\<not> accepted_output (JObj [(ascii ''title'', JStr (ascii ''T''))])"
    by (simp add: ascii_def)
  have short: "take 100 demo_content = demo_content"
    by (simp add: demo_content_def ascii_def)
  have f1: "analyze_with_ai demo_env demo_content (Some [ascii ''rust''])
              = fallback_metadata demo_content (Some [ascii ''rust''])"
    using analyze_falls_back [of demo_env demo_content "Some [ascii ''rust'']"] b1 by blast
  then have r1: "analyze_with_ai demo_env demo_content (Some [ascii ''rust''])
       = JObj [(ascii ''title'', JStr untitled_memo),
               (ascii ''tags'', JArr [JStr (ascii ''rust'')]),
               (ascii ''summary'', JStr demo_content),
               (ascii ''keywords'', JArr [])]"
    by (simp add: fallback_metadata_def short)
  have "py_getitem (analyze_with_ai notjson_env demo_content (Some [])) (ascii ''tags'')
       = Inr (JArr (map JStr (case Some ([]::pystr list) of
                                     None \<Rightarrow> [unclassified_tag]
                                   | Some ts \<Rightarrow> if ts = [] then [unclassified_tag] else ts)))"
    using analyze_falls_back [of notjson_env demo_content "Some []"] b2 by blast
  then have r2: "py_getitem (analyze_with_ai notjson_env demo_content (Some [])) (ascii ''tags'')
       = Inr (JArr [JStr unclassified_tag])"
    by simp
  have r3: "py_getitem (analyze_with_ai malformed_env demo_content None) (ascii ''title'')
       = Inr (JStr untitled_memo)"
    using analyze_falls_back [of malformed_env demo_content None] b3 n3 by blast
  have r4: "analyze_with_ai partial_env demo_content None = partial_reply"
    using analyze_falls_back [of partial_env demo_content None] b4 partial_reply_accepted
    by blast
  have r5: "accepted_output full_reply"
    using analyze_falls_back [of demo_env demo_content None] full_reply_contract by blast
  from b1 b2 b3 b4 n3 r1 r2 r3 r4 r5 partial_reply_accepted full_reply_contract
  show ?thesis by blast
qed

section \<open>The archive file name\<close>

lemma ascii_append: "ascii (a @ b) = ascii a @ ascii b"
  by (simp add: ascii_def)

lemma safe_title_alt:
  "safe_title env title =
     filter (\<lambda>c. py_isalnum env c \<or> c = 0x20 \<or> c = 0x2D \<or> c = 0x5F)
       (map (\<lambda>c. if c = 0x2F \<or> c = 0x5C then 0x2D else c) (take 50 title))"
proof -
  have "py_replace_char 0x5C 0x2D (py_replace_char 0x2F 0x2D title)
          = map (\<lambda>c. if c = 0x2F \<or> c = 0x5C then 0x2D else c) title"
    by (simp add: py_replace_char_def)
  then show ?thesis
    by (simp add: safe_title_def take_map)
qed

lemma length_safe_title: "length (safe_title env title) \<le> 50"
proof -
  have "length (safe_title env title) \<le> length (take 50 title)"
    unfolding safe_title_alt by (rule order_trans [OF length_filter_le]) simp
  then show ?thesis by simp
qed

lemma demo_safe_title:
  "safe_title demo_env long_title = ascii ''notes-2024-Why is the borrow checker strict part''"
  by (simp add: safe_title_alt long_title_def ascii_def demo_env_def ascii_isalnum_def)

text \<open>
  Claim C9. The archive path is the fixed directory, a slash, the first 10 characters
  of the creation time, an underscore, the sanitized title and the extension. The
  sanitized title is made from the first 50 characters of the title by replacing each
  slash and backslash with a hyphen and dropping every character that is not
  alphanumeric, a space, a hyphen or an underscore; so it has at most 50 characters,
  only such characters, and neither a slash nor a backslash.
\<close>

theorem archive_filename_policy:
  assumes "10 \<le> length created"
  shows "archive_filename env created title
           = ascii ''zettelkasten-vault/'' @ take 10 created @ ascii ''_''
             @ safe_title env title @ ascii ''.md''
         \<and> length (take 10 created) = 10
         \<and> safe_title env title
             = filter (\<lambda>c. py_isalnum env c \<or> c = 0x20 \<or> c = 0x2D \<or> c = 0x5F)
                 (map (\<lambda>c. if c = 0x2F \<or> c = 0x5C then 0x2D else c) (take 50 title))
         \<and> length (safe_title env title) \<le> 50
         \<and> (\<forall>c\<in>set (safe_title env title).
               py_isalnum env c \<or> c = 0x20 \<or> c = 0x2D \<or> c = 0x5F)
         \<and> 0x2F \<notin> set (safe_title env title)
         \<and> 0x5C \<notin> set (safe_title env title)"
proof (intro conjI)
  show "archive_filename env created title
           = ascii ''zettelkasten-vault/'' @ take 10 created @ ascii ''_''
             @ safe_title env title @ ascii ''.md''"
    by (simp add: archive_filename_def target_dir_def ascii_def)
  show "length (take 10 created) = 10" using assms by simp
  show "safe_title env title
             = filter (\<lambda>c. py_isalnum env c \<or> c = 0x20 \<or> c = 0x2D \<or> c = 0x5F)
                 (map (\<lambda>c. if c = 0x2F \<or> c = 0x5C then 0x2D else c) (take 50 title))"
    by (rule safe_title_alt)
  show "length (safe_title env title) \<le> 50" by (rule length_safe_title)
  show "\<forall>c\<in>set (safe_title env title).
               py_isalnum env c \<or> c = 0x20 \<or> c = 0x2D \<or> c = 0x5F"
    by (auto simp: safe_title_alt)
  show "0x2F \<notin> set (safe_title env title)"
    by (auto simp: safe_title_alt split: if_splits)
  show "0x5C \<notin> set (safe_title env title)"
    by (auto simp: safe_title_alt split: if_splits)
qed

theorem archive_filename_policy_witness:
  "10 \<le> length (ascii ''2024-01-01T09:00:00.000Z'')
   \<and> 50 < length long_title \<and> 0x2F \<in> set long_title \<and> 0x5C \<in> set long_title
   \<and> archive_filename demo_env (ascii ''2024-01-01T09:00:00.000Z'') long_title
       = ascii ''zettelkasten-vault/2024-01-01_notes-2024-Why is the borrow checker strict part.md''
   \<and> length (safe_title demo_env long_title) \<le> 50
   \<and> 0x2F \<notin> set (safe_title demo_env long_title)
   \<and> 0x5C \<notin> set (safe_title demo_env long_title)"
proof -
  have h: "10 \<le> length (ascii ''2024-01-01T09:00:00.000Z'')"
    by (simp add: ascii_def)
  note th = archive_filename_policy [OF h, of demo_env long_title]
  have l: "50 < length long_title \<and> 0x2F \<in> set long_title \<and> 0x5C \<in> set long_title"
    by (simp add: long_title_def ascii_def)
  have d: "take 10 (ascii ''2024-01-01T09:00:00.000Z'') = ascii ''2024-01-01''"
    by (simp add: ascii_def)
  have name: "archive_filename demo_env (ascii ''2024-01-01T09:00:00.000Z'') long_title
       = ascii ''zettelkasten-vault/2024-01-01_notes-2024-Why is the borrow checker strict part.md''"
    using th [THEN conjunct1]
    by (simp add: d demo_safe_title ascii_def)
  from h l name th show ?thesis by blast
qed

section \<open>The length check of one note\<close>

lemma calls_pages_update:
  "pages_update st pid title tags = Inr st' \<Longrightarrow> prefix (calls st) (calls st')"
  by (auto simp: pages_update_def split: if_splits json.splits)

lemma calls_update_notion_page:
  "update_notion_page env st pid title tags rel = (r, st') \<Longrightarrow> prefix (calls st) (calls st')"
  by (auto simp: update_notion_page_def split: sum.splits if_splits option.splits
           dest!: calls_pages_update intro: prefix_order.trans)

lemma calls_save_to_github:
  "save_to_github env st f c = (r, st') \<Longrightarrow> prefix (calls st) (calls st')"
  by (auto simp: save_to_github_def split: if_splits)

lemma calls_add_to_log:
  "add_to_log env st pid title le status = (r, st') \<Longrightarrow> prefix (calls st) (calls st')"
  by (auto simp: add_to_log_def save_log_def split: sum.splits if_splits)

lemma calls_enrich_and_persist:
  assumes "enrich_and_persist env st p pid content = (r, st')"
  shows "prefix (calls st @ [CallAnalyze content]) (calls st')"
  using assms
  unfolding enrich_and_persist_def Let_def
  by (auto split: sum.splits option.splits prod.splits
           dest!: calls_update_notion_page calls_save_to_github calls_add_to_log
           intro: prefix_order.trans)

lemma process_page_short:
  assumes "pages_retrieve st pid = Inr p" "get_page_content st pid = Inr content"
    "length content < 20"
  shows "process_page env st pid = (None, st)"
  using assms by (simp add: process_page_def)

lemma process_page_long:
  assumes "pages_retrieve st pid = Inr p" "get_page_content st pid = Inr content"
    "20 \<le> length content"
  shows "process_page env st pid = enrich_and_persist env st p pid content"
  using assms by (auto simp: process_page_def)

lemma demo_content_a:
  "get_page_content demo_state (ascii ''a'') = Inr (ascii ''Rust is memory safe'')"
  by (simp add: get_page_content_def demo_state_def demo_blocks_def ascii_def render_content_def
      content_step_def extract_text_def demo_paragraph_def)

lemma demo_content_b:
  "get_page_content demo_state (ascii ''b'') = Inr (ascii ''Water the tomatoes !'')"
  by (simp add: get_page_content_def demo_state_def demo_blocks_def ascii_def render_content_def
      content_step_def extract_text_def demo_paragraph_def)

lemma demo_retrieve_a: "pages_retrieve demo_state (ascii ''a'') = Inr (demo_snapshot ! 0)"
  by (simp add: pages_retrieve_def demo_state_def demo_snapshot_def demo_page_def ascii_def)

lemma demo_retrieve_b: "pages_retrieve demo_state (ascii ''b'') = Inr (demo_snapshot ! 1)"
  by (simp add: pages_retrieve_def demo_state_def demo_snapshot_def demo_page_def ascii_def)

text \<open>
  Claim C5. For a note the store returns, with its body extracted: when the body has
  fewer than 20 characters, \<open>process_page\<close> returns without an exception and leaves the
  whole state as it was, so no ledger entry is written, in memory or in the file, and
  no request is sent; when the body has 20 characters or more, \<open>process_page\<close> goes on
  with the enrichment, and the request to the analysis backend is the next call it
  makes.
\<close>

theorem process_page_skip_boundary:
  assumes "pages_retrieve st pid = Inr p" and "get_page_content st pid = Inr content"
  shows "(length content < 20 \<longrightarrow> process_page env st pid = (None, st))
         \<and> (20 \<le> length content \<longrightarrow>
              process_page env st pid = enrich_and_persist env st p pid content
              \<and> prefix (calls st @ [CallAnalyze content])
                       (calls (snd (process_page env st pid))))"
proof (intro conjI impI)
  assume "length content < 20"
  with assms show "process_page env st pid = (None, st)"
    by (rule process_page_short)
next
  assume "20 \<le> length content"
  with assms show eq: "process_page env st pid = enrich_and_persist env st p pid content"
    by (rule process_page_long)
  show "prefix (calls st @ [CallAnalyze content]) (calls (snd (process_page env st pid)))"
    unfolding eq
    by (rule calls_enrich_and_persist [of env st p pid content
               "fst (enrich_and_persist env st p pid content)"]) simp
qed

theorem process_page_skip_boundary_witness:
  "pages_retrieve demo_state (ascii ''a'') = Inr (demo_snapshot ! 0)
   \<and> get_page_content demo_state (ascii ''a'') = Inr (ascii ''Rust is memory safe'')
   \<and> length (ascii ''Rust is memory safe'') = 19
   \<and> process_page demo_env demo_state (ascii ''a'') = (None, demo_state)
   \<and> pages_retrieve demo_state (ascii ''b'') = Inr (demo_snapshot ! 1)
   \<and> get_page_content demo_state (ascii ''b'') = Inr (ascii ''Water the tomatoes !'')
   \<and> length (ascii ''Water the tomatoes !'') = 20
   \<and> prefix (calls demo_state @ [CallAnalyze (ascii ''Water the tomatoes !'')])
             (calls (snd (process_page demo_env demo_state (ascii ''b''))))"
proof -
  have la: "length (ascii ''Rust is memory safe'') = 19" by (simp add: ascii_def)
  have lb: "length (ascii ''Water the tomatoes !'') = 20" by (simp add: ascii_def)
  have la': "length (ascii ''Rust is memory safe'') < 20" by (simp add: la)
  have lb': "20 \<le> length (ascii ''Water the tomatoes !'')" by (simp add: lb)
  have a: "process_page demo_env demo_state (ascii ''a'') = (None, demo_state)"
    using process_page_skip_boundary [OF demo_retrieve_a demo_content_a, of demo_env] la'
    by blast
  have b: "prefix (calls demo_state @ [CallAnalyze (ascii ''Water the tomatoes !'')])
             (calls (snd (process_page demo_env demo_state (ascii ''b''))))"
    using process_page_skip_boundary [OF demo_retrieve_b demo_content_b, of demo_env] lb'
    by blast
  from demo_retrieve_a demo_content_a la a demo_retrieve_b demo_content_b lb b
  show ?thesis by simp
qed

section \<open>The counters of the batch\<close>

lemma outcome_of_returned:
  "process_page env st pid = (None, st1) \<Longrightarrow>
     outcome_of env st pid = (if too_short st pid then SkippedTooShort else Enriched)"
  by (simp add: outcome_of_def)

lemma run_loop_counts:
  "run_loop env st pages s e = (Inr (s', e'), st') \<Longrightarrow>
     s' = s + int (count_list (batch_outcomes env st pages) Enriched)
            + int (count_list (batch_outcomes env st pages) SkippedTooShort)
     \<and> e' = e + int (count_list (batch_outcomes env st pages) Failed)"
proof (induction pages arbitrary: st s e)
  case Nil
  then show ?case by simp
next
  case (Cons p ps)
  obtain r st1 where pp: "process_page env st (page_id p) = (r, st1)"
    by (cases "process_page env st (page_id p)")
  show ?case
  proof (cases r)
    case None
    with pp Cons.prems have "run_loop env st1 ps (s + 1) e = (Inr (s', e'), st')" by simp
    from Cons.IH [OF this] pp None show ?thesis
      by (simp add: outcome_of_returned)
  next
    case (Some ex)
    let ?log = "add_to_log env st1 (page_id p)
                  (JStr (if get_page_title p \<noteq> [] then get_page_title p else title_failed_text))
                  (last_edited_time p) (ascii ''error: '' @ exception_str env ex)"
    obtain r2 st2 where al: "?log = (r2, st2)" by (cases ?log)
    show ?thesis
    proof (cases r2)
      case None
      with pp Some al Cons.prems have "run_loop env st2 ps s (e + 1) = (Inr (s', e'), st')"
        by simp
      from Cons.IH [OF this] pp Some al None show ?thesis by simp
    next
      case (Some e2)
      with pp \<open>r = Some ex\<close> al Cons.prems show ?thesis by simp
    qed
  qed
qed

lemma run_loop_skip:
  assumes "pages_retrieve st (page_id p) = Inr pg" "too_short st (page_id p)"
  shows "process_page env st (page_id p) = (None, st)"
    and "run_loop env st (p # ps) s e = run_loop env st ps (s + 1) e"
proof -
  from assms(2) obtain content where "get_page_content st (page_id p) = Inr content"
    "length content < 20"
    by (auto simp: too_short_def split: sum.splits)
  with assms(1) show "process_page env st (page_id p) = (None, st)"
    by (rule process_page_short)
  then show "run_loop env st (p # ps) s e = run_loop env st ps (s + 1) e" by simp
qed

lemma demo_page_id_a: "page_id (demo_snapshot ! 0) = ascii ''a''"
  by (simp add: demo_snapshot_def demo_page_def)

lemma demo_too_short_a: "too_short demo_state (ascii ''a'')"
  by (simp add: too_short_def demo_content_a) (simp add: ascii_def)

text \<open>
  Claim C10. A note of the batch that the store returns and whose body has fewer than
  20 characters leaves the state untouched and adds one to the success counter. So
  the success count a run reports is the number of notes enriched plus the number of
  notes skipped as too short, the error count is the number of notes that failed, and
  the total is the size of the batch.
\<close>

theorem skipped_counted_as_success:
  "(pages_retrieve st (page_id p) = Inr pg \<and> too_short st (page_id p) \<longrightarrow>
      process_page env st (page_id p) = (None, st)
      \<and> run_loop env st (p # ps) s e = run_loop env st ps (s + 1) e)
   \<and> (run_batch env st pages = (Summary sc ec tot, st') \<longrightarrow>
        sc = int (count_list (batch_outcomes env st pages) Enriched)
             + int (count_list (batch_outcomes env st pages) SkippedTooShort)
        \<and> ec = int (count_list (batch_outcomes env st pages) Failed)
        \<and> tot = int (length pages))"
proof (intro conjI impI)
  assume h: "pages_retrieve st (page_id p) = Inr pg \<and> too_short st (page_id p)"
  then show "process_page env st (page_id p) = (None, st)"
    using run_loop_skip(1) by blast
  from h show "run_loop env st (p # ps) s e = run_loop env st ps (s + 1) e"
    using run_loop_skip(2) by blast
next
  assume rb: "run_batch env st pages = (Summary sc ec tot, st')"
  then have loop: "run_loop env st pages 0 0 = (Inr (sc, ec), st')"
    and tt: "tot = int (length pages)"
    by (auto simp: run_batch_def split: prod.splits sum.splits)
  from run_loop_counts [OF loop]
  show "sc = int (count_list (batch_outcomes env st pages) Enriched)
             + int (count_list (batch_outcomes env st pages) SkippedTooShort)"
    and "ec = int (count_list (batch_outcomes env st pages) Failed)"
    by simp_all
  from tt show "tot = int (length pages)" .
qed

theorem skipped_counted_as_success_witness:
  "pages_retrieve demo_state (page_id (demo_snapshot ! 0)) = Inr (demo_snapshot ! 0)
   \<and> too_short demo_state (page_id (demo_snapshot ! 0))
   \<and> run_batch demo_env demo_state [demo_snapshot ! 0] = (Summary 1 0 1, demo_state)
   \<and> batch_outcomes demo_env demo_state [demo_snapshot ! 0] = [SkippedTooShort]
   \<and> (1::int) = int (count_list (batch_outcomes demo_env demo_state [demo_snapshot ! 0]) Enriched)
             + int (count_list (batch_outcomes demo_env demo_state [demo_snapshot ! 0])
                     SkippedTooShort)"
proof -
  have h1: "pages_retrieve demo_state (page_id (demo_snapshot ! 0)) = Inr (demo_snapshot ! 0)"
    by (simp add: demo_page_id_a demo_retrieve_a)
  have h2: "too_short demo_state (page_id (demo_snapshot ! 0))"
    by (simp add: demo_page_id_a demo_too_short_a)
  note th = skipped_counted_as_success
              [of demo_state "demo_snapshot ! 0" "demo_snapshot ! 0" demo_env "[]" 0 0
                  "[demo_snapshot ! 0]" 1 0 1 demo_state]
  from th h1 h2
  have pp: "process_page demo_env demo_state (page_id (demo_snapshot ! 0)) = (None, demo_state)"
    and loop: "run_loop demo_env demo_state [demo_snapshot ! 0] 0 0
                 = run_loop demo_env demo_state [] (0 + 1) 0"
    by blast+
  from loop have rb: "run_batch demo_env demo_state [demo_snapshot ! 0]
                        = (Summary 1 0 1, demo_state)"
    by (simp add: run_batch_def)
  from pp h2 have bo: "batch_outcomes demo_env demo_state [demo_snapshot ! 0] = [SkippedTooShort]"
    by (simp add: outcome_of_def)
  from th rb
  have cnt: "(1::int) = int (count_list (batch_outcomes demo_env demo_state [demo_snapshot ! 0])
                             Enriched)
             + int (count_list (batch_outcomes demo_env demo_state [demo_snapshot ! 0])
                     SkippedTooShort)"
    by blast
  from h1 h2 rb bo cnt show ?thesis by blast
qed

section \<open>The append-once guard of the backlink section\<close>

lemma page_blocks_pages_update:
  "pages_update st pid title tags = Inr st' \<Longrightarrow> page_blocks st' = page_blocks st"
  by (auto simp: pages_update_def split: if_splits json.splits)

lemma has_related_section_iff:
  "has_related_section bs \<longleftrightarrow>
     (\<exists>b\<in>set bs. btype b \<in> set [ascii ''heading_2'', ascii ''heading_3'']
                  \<and> py_in_str related_marker (extract_text b))"
  by (induction bs) auto

lemma update_keeps_section:
  assumes "page_blocks st pid = Some bs" "has_related_section bs"
  shows "page_blocks (snd (update_notion_page env st pid title tags rel)) pid = Some bs"
  using assms
  by (auto simp: update_notion_page_def split: sum.splits dest!: page_blocks_pages_update)

lemma update_repeatedly_keeps_section:
  assumes "page_blocks st pid = Some bs" "has_related_section bs"
  shows "page_blocks (update_repeatedly env st pid args) pid = Some bs"
  using assms
proof (induction args arbitrary: st)
  case Nil
  then show ?case by simp
next
  case (Cons a args)
  obtain title tags rel where a: "a = (title, tags, rel)" by (cases a)
  from Cons.prems
  have "page_blocks (snd (update_notion_page env st pid title tags rel)) pid = Some bs"
    by (rule update_keeps_section)
  from Cons.IH [OF this Cons.prems(2)] a show ?case by simp
qed

lemma demo_blocks_c:
  "page_blocks demo_state (ascii ''c'')
     = Some [demo_heading_1, demo_paragraph ''A cache line is 64 bytes wide.'']"
  by (simp add: demo_state_def demo_blocks_def demo_heading_1_def ascii_def)

lemma demo_blocks_d:
  "page_blocks demo_state (ascii ''d'')
     = Some [demo_paragraph ''Trusty tools are worth their price.'',
             \<lparr>btype = ascii ''divider'', rich_text = None, checked = False\<rparr>,
             demo_heading_2]"
  by (simp add: demo_state_def demo_blocks_def demo_heading_2_def ascii_def)

lemma demo_update_c:
  "page_blocks (snd (update_notion_page demo_env demo_state (ascii ''c'') (JStr (ascii ''T'')) []
                       [demo_candidate])) (ascii ''c'')
     = Some [demo_heading_1, demo_paragraph ''A cache line is 64 bytes wide.'',
             \<lparr>btype = ascii ''divider'', rich_text = None, checked = False\<rparr>,
             demo_heading_2,
             \<lparr>btype = ascii ''paragraph'', rich_text = Some [arrow_text, ascii ''a''],
               checked = False\<rparr>]"
  by (simp add: update_notion_page_def pages_update_def demo_state_def demo_snapshot_def
        demo_page_def demo_blocks_def demo_heading_1_def demo_heading_2_def demo_paragraph_def
        extract_text_def related_heading_def related_marker_def backlink_children_def
        demo_candidate_def demo_env_def ascii_def)

lemma demo_heading_marked:
  "py_in_str related_marker (extract_text demo_heading_1)"
  "py_in_str related_marker (extract_text demo_heading_2)"
  by (simp_all add: demo_heading_1_def demo_heading_2_def extract_text_def related_heading_def
        related_marker_def)

text \<open>
  Claim C8, as stated, fails: the guard of lines 345-349 looks at headings of level 2
  and 3 only. The note \<open>c\<close> of the store has a level-1 heading whose text contains the
  marker; one application of \<open>update_notion_page\<close> with one related note appends a
  divider, a level-2 heading with the marker and a mention, and the note then has two
  headings whose text contains the marker.
\<close>

theorem append_once_counterexample:
  "page_blocks demo_state (ascii ''c'')
     = Some [demo_heading_1, demo_paragraph ''A cache line is 64 bytes wide.'']
   \<and> btype demo_heading_1 = ascii ''heading_1''
   \<and> py_in_str related_marker (extract_text demo_heading_1)
   \<and> page_blocks (snd (update_notion_page demo_env demo_state (ascii ''c'') (JStr (ascii ''T''))
                          [] [demo_candidate])) (ascii ''c'')
       = Some [demo_heading_1, demo_paragraph ''A cache line is 64 bytes wide.'',
               \<lparr>btype = ascii ''divider'', rich_text = None, checked = False\<rparr>,
               demo_heading_2,
               \<lparr>btype = ascii ''paragraph'', rich_text = Some [arrow_text, ascii ''a''],
                 checked = False\<rparr>]
   \<and> marked_headings
         [demo_heading_1, demo_paragraph ''A cache line is 64 bytes wide.'',
          \<lparr>btype = ascii ''divider'', rich_text = None, checked = False\<rparr>,
          demo_heading_2,
          \<lparr>btype = ascii ''paragraph'', rich_text = Some [arrow_text, ascii ''a''],
            checked = False\<rparr>]
       = [demo_heading_1, demo_heading_2]"
proof -
  have "btype demo_heading_1 = ascii ''heading_1''"
    by (simp add: demo_heading_1_def)
  moreover have "marked_headings
         [demo_heading_1, demo_paragraph ''A cache line is 64 bytes wide.'',
          \<lparr>btype = ascii ''divider'', rich_text = None, checked = False\<rparr>,
          demo_heading_2,
          \<lparr>btype = ascii ''paragraph'', rich_text = Some [arrow_text, ascii ''a''],
            checked = False\<rparr>]
       = [demo_heading_1, demo_heading_2]"
    by (simp add: marked_headings_def demo_heading_marked)
       (simp add: demo_heading_1_def demo_heading_2_def demo_paragraph_def ascii_def)
  ultimately show ?thesis
    using demo_blocks_c demo_update_c demo_heading_marked(1) by simp
qed

text \<open>
  Claim C8, amended. For every note whose blocks already contain a heading of level 2
  or 3 whose text contains the marker, any number of applications of
  \<open>update_notion_page\<close>, with any titles, tags and related notes, leave the blocks of the
  note as they were: no backlink section is added, and a note with one such section
  keeps exactly one.
\<close>

theorem append_once_section:
  assumes "page_blocks st pid = Some bs"
    and "\<exists>b\<in>set bs. btype b \<in> set [ascii ''heading_2'', ascii ''heading_3'']
                     \<and> py_in_str related_marker (extract_text b)"
  shows "page_blocks (update_repeatedly env st pid args) pid = Some bs"
  using assms update_repeatedly_keeps_section has_related_section_iff by blast

theorem append_once_section_witness:
  "page_blocks demo_state (ascii ''d'')
     = Some [demo_paragraph ''Trusty tools are worth their price.'',
             \<lparr>btype = ascii ''divider'', rich_text = None, checked = False\<rparr>,
             demo_heading_2]
   \<and> btype demo_heading_2 = ascii ''heading_2''
   \<and> py_in_str related_marker (extract_text demo_heading_2)
   \<and> page_blocks (update_repeatedly demo_env demo_state (ascii ''d'')
                    [(JStr (ascii ''T''), [], [demo_candidate]),
                     (JStr (ascii ''U''), [ascii ''tools''], [demo_candidate])]) (ascii ''d'')
       = Some [demo_paragraph ''Trusty tools are worth their price.'',
               \<lparr>btype = ascii ''divider'', rich_text = None, checked = False\<rparr>,
               demo_heading_2]
   \<and> marked_headings [demo_paragraph ''Trusty tools are worth their price.'',
                       \<lparr>btype = ascii ''divider'', rich_text = None, checked = False\<rparr>,
                       demo_heading_2]
       = [demo_heading_2]"
proof -
  have ty: "btype demo_heading_2 = ascii ''heading_2''"
    by (simp add: demo_heading_2_def)
  have ex: "\<exists>b\<in>set [demo_paragraph ''Trusty tools are worth their price.'',
                      \<lparr>btype = ascii ''divider'', rich_text = None, checked = False\<rparr>,
                      demo_heading_2].
              btype b \<in> set [ascii ''heading_2'', ascii ''heading_3'']
              \<and> py_in_str related_marker (extract_text b)"
    using ty demo_heading_marked(2) by simp
  have mh: "marked_headings [demo_paragraph ''Trusty tools are worth their price.'',
                       \<lparr>btype = ascii ''divider'', rich_text = None, checked = False\<rparr>,
                       demo_heading_2]
       = [demo_heading_2]"
    by (simp add: marked_headings_def demo_heading_marked)
       (simp add: demo_heading_2_def demo_paragraph_def ascii_def)
  from append_once_section [OF demo_blocks_d ex, of demo_env]
  have "page_blocks (update_repeatedly demo_env demo_state (ascii ''d'')
                    [(JStr (ascii ''T''), [], [demo_candidate]),
                     (JStr (ascii ''U''), [ascii ''tools''], [demo_candidate])]) (ascii ''d'')
       = Some [demo_paragraph ''Trusty tools are worth their price.'',
               \<lparr>btype = ascii ''divider'', rich_text = None, checked = False\<rparr>,
               demo_heading_2]" .
  with demo_blocks_d ty demo_heading_marked(2) mh show ?thesis by simp
qed

section \<open>Candidate pages on a well-shaped ledger\<close>

lemma unprocessed_loop_wf:
  "wf_log log \<Longrightarrow> unprocessed_loop log ps acc = Inr (acc @ filter (stale_in log) ps)"
proof (induction ps arbitrary: acc)
  case Nil
  then show ?case by simp
next
  case (Cons p ps)
  have "is_already_processed log (page_id p) (last_edited_time p) = Inr (\<not> stale_in log p)"
    using Cons.prems by (simp add: is_already_processed_wf stale_in_def split: option.splits)
  with Cons show ?case by simp
qed

lemma get_unprocessed_pages_wf:
  "wf_log (processing_log st) \<Longrightarrow>
     get_unprocessed_pages st
       = Inr (filter (\<lambda>p. listing_filter p \<and> stale_in (processing_log st) p) (db_pages st))"
  by (simp add: get_unprocessed_pages_def unprocessed_loop_wf conj_commute)




lemma not_listed_after_update: "\<not> listing_filter (set_properties t tags p)"
  by (simp add: listing_filter_def set_properties_def update_conv' status_processed_def
        status_unprocessed_def ai_processed_flag_def ascii_def)

section \<open>Loading the ledger file\<close>









section \<open>Edit detection and the listing filter\<close>

lemma demo_env_fields:
  "clock_now demo_env = ascii ''2024-01-02T10:00:00''"
  "archive_fails demo_env f = False"
  "py_isalnum demo_env = ascii_isalnum"
  "log_writable demo_env = True"
  "mention_text demo_env pid = pid"
  by (simp_all add: demo_env_def)

lemma demo_analysis: "analyze_with_ai demo_env c (Some ts) = fallback_metadata c (Some ts)"
  by (simp add: analyze_with_ai_def analyze_try_def demo_env_def)

lemmas demo_eval =
  process_page_def pages_retrieve_def get_page_content_def demo_state_def
  demo_blocks_def demo_snapshot_def demo_page_def render_content_def content_step_def
  extract_text_def demo_paragraph_def enrich_and_persist_def demo_analysis fallback_metadata_def
  analysis_keywords_def analysis_tags_def get_page_tags_def find_related_pages_def
  update_notion_page_def pages_update_def set_properties_def convert_to_markdown_def
  get_page_title_def archive_filename_def safe_title_def target_dir_def py_replace_char_def
  py_remove_char_def save_to_github_def add_to_log_def log_store_def log_entry_def
  save_log_def empty_log_def processed_pages_key_def last_edited_time_key_def
  demo_env_fields ascii_isalnum_def ai_processed_flag_def status_processed_def
  untitled_memo_def ascii_def Let_def

lemma demo_process_b_returns: "fst (process_page demo_env demo_state (ascii ''b'')) = None"
  by (simp add: demo_eval)

lemma processed_log:
  "processing_log processed_state
     = JObj [(processed_pages_key,
              JObj [(ascii ''b'', log_entry (JStr untitled_memo) (ascii ''2024-01-02T10:00:00'')
                                   (ascii ''t1'') (ascii ''success''))])]"
  by (simp add: processed_state_def demo_eval)

lemma processed_db:
  "db_pages processed_state
     = [demo_snapshot ! 0,
        set_properties untitled_memo [ascii ''plants''] (demo_snapshot ! 1),
        demo_snapshot ! 2, demo_snapshot ! 3, demo_snapshot ! 4]"
  by (simp add: processed_state_def demo_eval)

lemma edited_log: "processing_log edited_state = processing_log processed_state"
  by (simp add: edited_state_def)

lemma wf_processed_log: "wf_log (processing_log processed_state)"
  by (simp add: processed_log)

lemma edited_db:
  "db_pages edited_state
     = [demo_snapshot ! 0,
        (set_properties untitled_memo [ascii ''plants''] (demo_snapshot ! 1))
          \<lparr>last_edited_time := ascii ''t2''\<rparr>,
        demo_snapshot ! 2, demo_snapshot ! 3, demo_snapshot ! 4]"
  by (simp add: edited_state_def processed_db)
     (simp add: demo_snapshot_def demo_page_def set_properties_def ascii_def)

lemma listing_filter_edit:
  "listing_filter (p\<lparr>last_edited_time := r\<rparr>) = listing_filter p"
  by (simp add: listing_filter_def)

lemma demo_listed:
  "listing_filter (demo_snapshot ! 0)" "listing_filter (demo_snapshot ! 2)"
  "listing_filter (demo_snapshot ! 3)" "listing_filter (demo_snapshot ! 4)"
  by (simp_all add: listing_filter_def demo_snapshot_def demo_page_def ascii_def
        ai_processed_flag_def)

lemma demo_ids:
  "map page_id demo_snapshot = [ascii ''a'', ascii ''b'', ascii ''c'', ascii ''d'', ascii ''x'']"
  "page_id (demo_snapshot ! 0) = ascii ''a''" "page_id (demo_snapshot ! 2) = ascii ''c''"
  "page_id (demo_snapshot ! 3) = ascii ''d''" "page_id (demo_snapshot ! 4) = ascii ''x''"
  by (simp_all add: demo_snapshot_def demo_page_def)

lemma processed_entries:
  "ledger_entry (processing_log processed_state) (ascii ''a'') = None"
  "ledger_entry (processing_log processed_state) (ascii ''c'') = None"
  "ledger_entry (processing_log processed_state) (ascii ''d'') = None"
  "ledger_entry (processing_log processed_state) (ascii ''x'') = None"
  "ledger_entry (processing_log processed_state) (ascii ''b'')
     = Some (log_entry (JStr untitled_memo) (ascii ''2024-01-02T10:00:00'')
               (ascii ''t1'') (ascii ''success''))"
  by (simp_all add: processed_log ascii_def)

lemma edited_candidates:
  "candidate_pages (get_all_pages edited_state) False
     = Inr [demo_snapshot ! 0, demo_snapshot ! 2, demo_snapshot ! 3, demo_snapshot ! 4]"
proof -
  have wf: "wf_log (processing_log (get_all_pages edited_state))"
    by (simp add: get_all_pages_def edited_log wf_processed_log)
  have st: "stale_in (processing_log processed_state) (demo_snapshot ! 0)"
    "stale_in (processing_log processed_state) (demo_snapshot ! 2)"
    "stale_in (processing_log processed_state) (demo_snapshot ! 3)"
    "stale_in (processing_log processed_state) (demo_snapshot ! 4)"
    by (simp_all add: stale_in_def demo_ids processed_entries)
  show ?thesis
    unfolding candidate_pages_def
    by (simp add: get_unprocessed_pages_wf [OF wf])
       (simp add: get_all_pages_def edited_log edited_db listing_filter_edit
          not_listed_after_update demo_listed st)
qed

lemma edited_stale_b:
  "is_stale (processing_log edited_state) (ascii ''b'') (ascii ''t2'') = Inr True"
  by (simp add: edited_log is_stale_wf wf_processed_log processed_entries)
     (simp add: ascii_def)

text \<open>
  Claim C1, as stated, fails. The note \<open>b\<close> is processed in \<open>demo_state\<close>: the call
  returns, the ledger holds a success entry at revision \<open>t1\<close>, and the store row has
  the processed status and the flag set. The note is then edited and the store gives
  it the revision \<open>t2\<close>. The ledger check finds it stale, but the listing of the next
  run does not return it, and the candidate set is the other four notes.
\<close>

theorem edit_detection_counterexample:
  "fst (process_page demo_env demo_state (ascii ''b'')) = None
   \<and> ledger_entry (processing_log edited_state) (ascii ''b'')
       = Some (log_entry (JStr untitled_memo) (ascii ''2024-01-02T10:00:00'')
                 (ascii ''t1'') (ascii ''success''))
   \<and> map page_id (db_pages edited_state)
       = [ascii ''a'', ascii ''b'', ascii ''c'', ascii ''d'', ascii ''x'']
   \<and> map last_edited_time (db_pages edited_state)
       = [ascii ''t1'', ascii ''t2'', ascii ''t1'', ascii ''t1'', ascii ''t1'']
   \<and> ascii ''t2'' \<noteq> ascii ''t1''
   \<and> is_stale (processing_log edited_state) (ascii ''b'') (ascii ''t2'') = Inr True
   \<and> map_sum id (map page_id) (candidate_pages (get_all_pages edited_state) False)
       = Inr [ascii ''a'', ascii ''c'', ascii ''d'', ascii ''x'']"
proof -
  have ids: "map page_id (db_pages edited_state)
       = [ascii ''a'', ascii ''b'', ascii ''c'', ascii ''d'', ascii ''x'']"
    by (simp add: edited_db) (simp add: demo_snapshot_def demo_page_def set_properties_def)
  have revs: "map last_edited_time (db_pages edited_state)
       = [ascii ''t1'', ascii ''t2'', ascii ''t1'', ascii ''t1'', ascii ''t1'']"
    by (simp add: edited_db) (simp add: demo_snapshot_def demo_page_def)
  have ne: "ascii ''t2'' \<noteq> ascii ''t1''" by (simp add: ascii_def)
  have cands: "map_sum id (map page_id) (candidate_pages (get_all_pages edited_state) False)
       = Inr [ascii ''a'', ascii ''c'', ascii ''d'', ascii ''x'']"
    by (simp add: edited_candidates demo_ids)
  from demo_process_b_returns processed_entries(5) ids revs ne edited_stale_b cands
  show ?thesis by (simp add: edited_log)
qed

lemma candidate_pages_wf:
  assumes "wf_log (processing_log st)"
  shows "candidate_pages st False
           = Inr (filter (\<lambda>p. listing_filter p \<and> stale_in (processing_log st) p) (db_pages st))"
    and "candidate_pages st True = Inr (all_pages_cache st)"
  using assms by (simp_all add: candidate_pages_def get_unprocessed_pages_wf)

text \<open>
  Claim C1, amended. With a ledger of the expected shape, a note of the store whose
  ledger entry, whatever its outcome, holds a revision other than the note's current
  one is in the candidate set of a run exactly when it passes the listing filter
  (Status is the unprocessed option, or the processed flag is false); under
  \<open>force_reprocess\<close> the candidate set is the whole snapshot. A row as the persister
  leaves it, with the processed status and the flag set, does not pass the filter.
\<close>

theorem edit_detection_behind_listing:
  assumes "wf_log (processing_log st)" and "p \<in> set (db_pages st)"
    and "ledger_entry (processing_log st) (page_id p) = Some e"
    and "stored_revision e \<noteq> Some (last_edited_time p)"
  shows "(\<exists>ps. candidate_pages st False = Inr ps \<and> (p \<in> set ps \<longleftrightarrow> listing_filter p))
         \<and> candidate_pages st True = Inr (all_pages_cache st)
         \<and> (\<forall>t tags q. \<not> listing_filter (set_properties t tags q))"
proof (intro conjI allI)
  from assms(3,4) have "stale_in (processing_log st) p"
    by (simp add: stale_in_def)
  with assms(2)
  have "p \<in> set (filter (\<lambda>p. listing_filter p \<and> stale_in (processing_log st) p) (db_pages st))
          \<longleftrightarrow> listing_filter p"
    by simp
  with candidate_pages_wf(1) [OF assms(1)]
  show "\<exists>ps. candidate_pages st False = Inr ps \<and> (p \<in> set ps \<longleftrightarrow> listing_filter p)"
    by blast
  show "candidate_pages st True = Inr (all_pages_cache st)"
    using assms(1) by (rule candidate_pages_wf(2))
  show "\<not> listing_filter (set_properties t tags q)" for t tags q
    by (rule not_listed_after_update)
qed

lemma retry_facts:
  "wf_log (processing_log retry_state)"
  "demo_page ''b'' ''t2'' ''Gardening notes'' [''plants''] \<in> set (db_pages retry_state)"
  "ledger_entry (processing_log retry_state)
     (page_id (demo_page ''b'' ''t2'' ''Gardening notes'' [''plants'']))
     = Some (log_entry (JStr (ascii ''B'')) (ascii ''n1'') (ascii ''t1'')
               (ascii ''error: APIError''))"
  "stored_revision (log_entry (JStr (ascii ''B'')) (ascii ''n1'') (ascii ''t1'')
               (ascii ''error: APIError''))
     \<noteq> Some (last_edited_time (demo_page ''b'' ''t2'' ''Gardening notes'' [''plants'']))"
  "listing_filter (demo_page ''b'' ''t2'' ''Gardening notes'' [''plants''])"
     apply (simp add: retry_state_def demo_state_def wf_demo_log)
    apply (simp add: retry_state_def demo_state_def)
   apply (simp add: retry_state_def demo_state_def demo_page_def ledger_entry_demo_log)
  apply (simp add: demo_page_def ascii_def)
  apply (simp add: listing_filter_def demo_page_def ascii_def ai_processed_flag_def)
  done

theorem edit_detection_behind_listing_witness:
  "wf_log (processing_log retry_state)
   \<and> demo_page ''b'' ''t2'' ''Gardening notes'' [''plants''] \<in> set (db_pages retry_state)
   \<and> ledger_entry (processing_log retry_state)
        (page_id (demo_page ''b'' ''t2'' ''Gardening notes'' [''plants'']))
       = Some (log_entry (JStr (ascii ''B'')) (ascii ''n1'') (ascii ''t1'')
                 (ascii ''error: APIError''))
   \<and> stored_revision (log_entry (JStr (ascii ''B'')) (ascii ''n1'') (ascii ''t1'')
                 (ascii ''error: APIError''))
       \<noteq> Some (last_edited_time (demo_page ''b'' ''t2'' ''Gardening notes'' [''plants'']))
   \<and> listing_filter (demo_page ''b'' ''t2'' ''Gardening notes'' [''plants''])
   \<and> (\<exists>ps. candidate_pages retry_state False = Inr ps
          \<and> demo_page ''b'' ''t2'' ''Gardening notes'' [''plants''] \<in> set ps)"
proof -
  from edit_detection_behind_listing [OF retry_facts(1-4)] retry_facts(5)
  have "\<exists>ps. candidate_pages retry_state False = Inr ps
          \<and> demo_page ''b'' ''t2'' ''Gardening notes'' [''plants''] \<in> set ps"
    by blast
  with retry_facts show ?thesis by blast
qed

end
